theory Spec2Isabelle
  imports Main "HOL-Library.Word"
begin

section \<open>DNS-01 challenge providers: Cloudflare and Infoblox\<close>

text \<open>
  The two providers of the repository are embedded as state-passing functions. A provider
  value is the Go struct behind the method receiver; the collaborators that live outside
  the source files (the DNS resolver of package dns01, the Cloudflare client, the Infoblox
  connector and object manager) are parameters: records of functions over an arbitrary
  world state \<open>'w\<close>, so that every theorem holds for every behaviour of the backend.
  Each provider method returns an outcome: the Go \<open>error\<close> result (\<open>None\<close> is \<open>nil\<close>), the
  provider after the call, the world after the call, and the list of collaborator calls the
  method made, in order.

  The mutexes around the maps are not modelled: the embedding is sequential, one method at a
  time. \<open>context.Background()\<close> carries no deadline and no value and is left out.
  A provider value stands for a struct as the constructors build it: its configuration
  pointer and its map are not \<open>nil\<close>. A collaborator that returns no error returns a
  value (a created record is never \<open>nil\<close>).
\<close>

subsection \<open>Package dns01\<close>

text \<open>An \<open>error\<close> value produced by a collaborator outside the source files: its message.\<close>

type_synonym go_error = string

record ChallengeInfo =
  EffectiveFQDN :: string
  Value :: string

text \<open>
  Modelled from the spec: the fixed challenge label of \<open>dns01.GetChallengeInfo\<close>, which is
  not among the source files; the label is the one of the spec's zone-preference example
  (\<open>_acme-challenge.sub.example.com\<close>).
\<close>

definition challengeLabel :: string where
  "challengeLabel = ''_acme-challenge.''"

text \<open>
  Modelled from the spec: the normalisation to the absolute (trailing-dot) form inside
  \<open>dns01.GetChallengeInfo\<close>, which is not among the source files: a name that already ends
  with a dot is kept, any other name gets one.
\<close>

definition absolute_form :: "string \<Rightarrow> string" where
  "absolute_form name = (if name \<noteq> [] \<and> last name = CHR ''.'' then name else name @ ''.'')"

text \<open>
  Modelled from the spec: \<open>dns01.GetChallengeInfo(domain, keyAuth)\<close>, which is not among the
  source files. The effective name is the domain prefixed with the fixed challenge label,
  in absolute form; the expected value is a one-way digest of the key material. The digest
  itself is a parameter. The providers pass the domain and the key authorization only, so
  the token is no argument of the derivation.
\<close>

definition GetChallengeInfo :: "(string \<Rightarrow> string) \<Rightarrow> string \<Rightarrow> string \<Rightarrow> ChallengeInfo" where
  "GetChallengeInfo digest domain keyAuth =
     \<lparr>EffectiveFQDN = absolute_form (challengeLabel @ domain), Value = digest keyAuth\<rparr>"

text \<open>
  Modelled from the spec: \<open>dns01.UnFqdn\<close>, which is not among the source files: it strips
  the trailing dot of an absolute name and gives the relative form.
\<close>

definition UnFqdn :: "string \<Rightarrow> string" where
  "UnFqdn name = (if name \<noteq> [] \<and> last name = CHR ''.'' then butlast name else name)"

text \<open>The pure part of package dns01 that the providers use: the digest of the key material.\<close>

record dns01 =
  Digest :: "string \<Rightarrow> string"

subsection \<open>Provider cloudflare: data\<close>

definition minTTL :: int where
  "minTTL = 120"

text \<open>
  \<open>Config\<close> of package cloudflare. \<open>time.Duration\<close> is a count of nanoseconds; \<open>HTTPClient\<close>
  is a pointer to a client of which only the timeout is set in this package.
\<close>

record cf_Config =
  cf_AuthEmail :: string
  cf_AuthKey :: string
  cf_AuthToken :: string
  cf_ZoneToken :: string
  cf_BaseURL :: string
  cf_TTL :: int
  cf_PropagationTimeout :: int
  cf_PollingInterval :: int
  cf_HTTPClient :: "int option"

text \<open>\<open>internal.Record\<close>: the fields that the provider writes and reads.\<close>

record Record =
  ID :: string
  Type :: string
  Name :: string
  Content :: string
  TTL :: int

text \<open>
  The Cloudflare client \<open>metaClient\<close>: an object given by its three methods. Each takes the
  world and returns its result with the new world.
\<close>

record 'w metaClient =
  ZoneIDByName :: "string \<Rightarrow> 'w \<Rightarrow> (go_error + string) \<times> 'w"
  CreateDNSRecord :: "string \<Rightarrow> Record \<Rightarrow> 'w \<Rightarrow> (go_error + Record) \<times> 'w"
  DeleteDNSRecord :: "string \<Rightarrow> string \<Rightarrow> 'w \<Rightarrow> go_error option \<times> 'w"

record 'w cf_DNSProvider =
  cf_client :: "'w metaClient"
  cf_config :: cf_Config
  recordIDs :: "string \<rightharpoonup> string"

text \<open>
  What the package takes from outside the source files: \<open>newClient\<close> of its own package
  and \<open>dns01.FindZoneByFqdn\<close>, which queries the DNS.
\<close>

record 'w cf_env = dns01 +
  newClient :: "cf_Config \<Rightarrow> go_error + 'w metaClient"
  FindZoneByFqdn :: "string \<Rightarrow> 'w \<Rightarrow> (go_error + string) \<times> 'w"

text \<open>
  The errors the package builds, one constructor for each place:
  \<^item> \<open>CfNilConfig\<close>: \<^verbatim>\<open>cloudflare: the configuration of the DNS provider is nil\<close>
  \<^item> \<open>CfInvalidTTL ttl min\<close>: \<^verbatim>\<open>cloudflare: invalid TTL, TTL (%d) must be greater than %d\<close>
  \<^item> \<open>CfNewClient e\<close>: \<^verbatim>\<open>cloudflare: %w\<close>
  \<^item> \<open>CfFindZone domain e\<close>: \<^verbatim>\<open>cloudflare: could not find zone for domain %q: %w\<close>
  \<^item> \<open>CfZoneID authZone e\<close>: \<^verbatim>\<open>cloudflare: failed to find zone %s: %w\<close>
  \<^item> \<open>CfCreateRecord e\<close>: \<^verbatim>\<open>cloudflare: failed to create TXT record: %w\<close>
  \<^item> \<open>CfUnknownRecordID fqdn\<close>: \<^verbatim>\<open>cloudflare: unknown record ID for '%s'\<close>
\<close>

datatype cf_error =
    CfNilConfig
  | CfInvalidTTL int int
  | CfNewClient go_error
  | CfFindZone string go_error
  | CfZoneID string go_error
  | CfCreateRecord go_error
  | CfUnknownRecordID string

text \<open>The calls that leave the package, with their arguments.\<close>

datatype cf_call =
    CallFindZoneByFqdn string
  | CallZoneIDByName string
  | CallCreateDNSRecord string Record
  | CallDeleteDNSRecord string string

text \<open>
  The log lines:
  \<^item> \<open>LogNewRecord domain id\<close>: \<^verbatim>\<open>cloudflare: new record for %s, ID %s\<close>
  \<^item> \<open>LogDeleteFailed e\<close>: \<^verbatim>\<open>cloudflare: failed to delete TXT record: %v\<close>
\<close>

datatype cf_log =
    LogNewRecord string string
  | LogDeleteFailed go_error

record 'w cf_outcome =
  cf_err :: "cf_error option"
  cf_prov :: "'w cf_DNSProvider"
  cf_world :: 'w
  cf_calls :: "cf_call list"
  cf_logged :: "cf_log list"

subsection \<open>Provider cloudflare: operations\<close>

text \<open>\<open>NewDNSProviderConfig\<close>; the argument is a pointer, \<open>None\<close> is \<open>nil\<close>.\<close>

definition cf_NewDNSProviderConfig ::
  "'w cf_env \<Rightarrow> cf_Config option \<Rightarrow> cf_error + 'w cf_DNSProvider" where
  "cf_NewDNSProviderConfig env cfg =
     (case cfg of
        None \<Rightarrow> Inl CfNilConfig
      | Some config \<Rightarrow>
          if cf_TTL config < minTTL then Inl (CfInvalidTTL (cf_TTL config) minTTL)
          else (case newClient env config of
                  Inl e \<Rightarrow> Inl (CfNewClient e)
                | Inr client \<Rightarrow>
                    Inr \<lparr>cf_client = client, cf_config = config, recordIDs = Map.empty\<rparr>))"

text \<open>\<open>Timeout\<close>: reads two fields of the configuration and nothing else.\<close>

definition cf_Timeout :: "'w cf_DNSProvider \<Rightarrow> 'w \<Rightarrow> (int \<times> int) \<times> 'w cf_outcome" where
  "cf_Timeout d w =
     ((cf_PropagationTimeout (cf_config d), cf_PollingInterval (cf_config d)),
      \<lparr>cf_err = None, cf_prov = d, cf_world = w, cf_calls = [], cf_logged = []\<rparr>)"

definition dquote :: string where
  "dquote = [CHR 0x22]"

definition cf_Present ::
  "'w cf_env \<Rightarrow> 'w cf_DNSProvider \<Rightarrow> string \<Rightarrow> string \<Rightarrow> string \<Rightarrow> 'w \<Rightarrow> 'w cf_outcome" where
  "cf_Present env d domain token keyAuth w =
     (let info = GetChallengeInfo (Digest env) domain keyAuth;
          c1 = [CallFindZoneByFqdn (EffectiveFQDN info)]
      in case FindZoneByFqdn env (EffectiveFQDN info) w of
           (Inl e, w1) \<Rightarrow>
             \<lparr>cf_err = Some (CfFindZone domain e), cf_prov = d, cf_world = w1,
              cf_calls = c1, cf_logged = []\<rparr>
         | (Inr authZone, w1) \<Rightarrow>
             (let c2 = c1 @ [CallZoneIDByName authZone]
              in case ZoneIDByName (cf_client d) authZone w1 of
                   (Inl e, w2) \<Rightarrow>
                     \<lparr>cf_err = Some (CfZoneID authZone e), cf_prov = d, cf_world = w2,
                      cf_calls = c2, cf_logged = []\<rparr>
                 | (Inr zoneID, w2) \<Rightarrow>
                     (let dnsRecord = \<lparr>ID = '''', Type = ''TXT'',
                                       Name = UnFqdn (EffectiveFQDN info),
                                       Content = dquote @ Value info @ dquote,
                                       TTL = cf_TTL (cf_config d)\<rparr>;
                          c3 = c2 @ [CallCreateDNSRecord zoneID dnsRecord]
                      in case CreateDNSRecord (cf_client d) zoneID dnsRecord w2 of
                           (Inl e, w3) \<Rightarrow>
                             \<lparr>cf_err = Some (CfCreateRecord e), cf_prov = d, cf_world = w3,
                              cf_calls = c3, cf_logged = []\<rparr>
                         | (Inr response, w3) \<Rightarrow>
                             \<lparr>cf_err = None,
                              cf_prov = d\<lparr>recordIDs := (recordIDs d)(token \<mapsto> ID response)\<rparr>,
                              cf_world = w3, cf_calls = c3,
                              cf_logged = [LogNewRecord domain (ID response)]\<rparr>)))"

definition cf_CleanUp ::
  "'w cf_env \<Rightarrow> 'w cf_DNSProvider \<Rightarrow> string \<Rightarrow> string \<Rightarrow> string \<Rightarrow> 'w \<Rightarrow> 'w cf_outcome" where
  "cf_CleanUp env d domain token keyAuth w =
     (let info = GetChallengeInfo (Digest env) domain keyAuth;
          c1 = [CallFindZoneByFqdn (EffectiveFQDN info)]
      in case FindZoneByFqdn env (EffectiveFQDN info) w of
           (Inl e, w1) \<Rightarrow>
             \<lparr>cf_err = Some (CfFindZone domain e), cf_prov = d, cf_world = w1,
              cf_calls = c1, cf_logged = []\<rparr>
         | (Inr authZone, w1) \<Rightarrow>
             (let c2 = c1 @ [CallZoneIDByName authZone]
              in case ZoneIDByName (cf_client d) authZone w1 of
                   (Inl e, w2) \<Rightarrow>
                     \<lparr>cf_err = Some (CfZoneID authZone e), cf_prov = d, cf_world = w2,
                      cf_calls = c2, cf_logged = []\<rparr>
                 | (Inr zoneID, w2) \<Rightarrow>
                     (case recordIDs d token of
                        None \<Rightarrow>
                          \<lparr>cf_err = Some (CfUnknownRecordID (EffectiveFQDN info)), cf_prov = d,
                           cf_world = w2, cf_calls = c2, cf_logged = []\<rparr>
                      | Some recordID \<Rightarrow>
                          (case DeleteDNSRecord (cf_client d) zoneID recordID w2 of
                             (e, w3) \<Rightarrow>
                               \<lparr>cf_err = None,
                                cf_prov = d\<lparr>recordIDs := (recordIDs d)(token := None)\<rparr>,
                                cf_world = w3,
                                cf_calls = c2 @ [CallDeleteDNSRecord zoneID recordID],
                                cf_logged = (case e of None \<Rightarrow> []
                                             | Some err \<Rightarrow> [LogDeleteFailed err])\<rparr>))))"

subsection \<open>Provider infoblox: data\<close>

definition defaultPoolConnections :: int where
  "defaultPoolConnections = 10"

record ib_Config =
  ib_Host :: string
  ib_Port :: string
  ib_Username :: string
  ib_Password :: string
  ib_DNSView :: string
  ib_WapiVersion :: string
  ib_SSLVerify :: bool
  ib_CACertificate :: string
  ib_PropagationTimeout :: int
  ib_PollingInterval :: int
  ib_TTL :: int
  ib_HTTPTimeout :: int

text \<open>
  The configuration values of the Infoblox client library. \<open>HostConfig\<close> and \<open>AuthConfig\<close>
  are struct literals in the source; \<open>TransportConfig\<close> is built by the library's
  \<open>NewTransportConfig\<close> and is kept as the three arguments it was given.
\<close>

record HostConfig =
  hc_Host :: string
  hc_Version :: string
  hc_Port :: string

record AuthConfig =
  ac_Username :: string
  ac_Password :: string

record TransportConfig =
  tc_sslVerify :: string
  tc_httpRequestTimeout :: int
  tc_poolConnections :: int

definition NewTransportConfig :: "string \<Rightarrow> int \<Rightarrow> int \<Rightarrow> TransportConfig" where
  "NewTransportConfig sslVerify httpRequestTimeout poolConnections =
     \<lparr>tc_sslVerify = sslVerify, tc_httpRequestTimeout = httpRequestTimeout,
      tc_poolConnections = poolConnections\<rparr>"

definition FormatBool :: "bool \<Rightarrow> string" where
  "FormatBool b = (if b then ''true'' else ''false'')"

text \<open>The TXT record object that the library returns: the provider reads its reference.\<close>

record RecordTXT =
  Ref :: string

text \<open>
  The library's connector and object manager, each an object given by the methods the
  provider calls. \<open>CreateTXTRecord\<close> takes the DNS view, the record name, the text, the TTL
  as \<open>uint32\<close>, the use-TTL flag and the comment (the last argument of the source, the
  extensible attributes, is always \<open>nil\<close>).
\<close>

record 'w Connector =
  Logout :: "'w \<Rightarrow> go_error option \<times> 'w"

record 'w ObjectManager =
  CreateTXTRecord ::
    "string \<Rightarrow> string \<Rightarrow> string \<Rightarrow> 32 word \<Rightarrow> bool \<Rightarrow> string \<Rightarrow> 'w \<Rightarrow> (go_error + RecordTXT) \<times> 'w"
  DeleteTXTRecord :: "string \<Rightarrow> 'w \<Rightarrow> (go_error + string) \<times> 'w"

record ib_DNSProvider =
  ib_config :: ib_Config
  transportConfig :: TransportConfig
  ibConfig :: HostConfig
  ibAuth :: AuthConfig
  recordRefs :: "string \<rightharpoonup> string"

text \<open>
  What the package takes from outside the source files: the library's \<open>NewConnector\<close>
  (which opens the session), its \<open>NewObjectManager\<close> and the user agent string.
\<close>

record 'w ib_env = dns01 +
  NewConnector :: "HostConfig \<Rightarrow> AuthConfig \<Rightarrow> TransportConfig \<Rightarrow> 'w \<Rightarrow> (go_error + 'w Connector) \<times> 'w"
  NewObjectManager :: "'w Connector \<Rightarrow> string \<Rightarrow> string \<Rightarrow> 'w ObjectManager"
  useragent_Get :: string

text \<open>
  The errors the package builds:
  \<^item> \<open>IbNilConfig\<close>: \<^verbatim>\<open>infoblox: the configuration of the DNS provider is nil\<close>
  \<^item> \<open>IbMissingHost\<close>: \<^verbatim>\<open>infoblox: missing host\<close>
  \<^item> \<open>IbMissingCredentials\<close>: \<^verbatim>\<open>infoblox: missing credentials\<close>
  \<^item> \<open>IbConnector e\<close>: \<^verbatim>\<open>infoblox: %w\<close>
  \<^item> \<open>IbCreateRecord domain e\<close>: \<^verbatim>\<open>infoblox: could not create TXT record for %s: %w\<close>
  \<^item> \<open>IbUnknownRecordID fqdn token\<close>: \<^verbatim>\<open>infoblox: unknown record ID for '%s' '%s'\<close>
  \<^item> \<open>IbDeleteRecord domain e\<close>: \<^verbatim>\<open>infoblox: could not delete TXT record for %s: %w\<close>
\<close>

datatype ib_error =
    IbNilConfig
  | IbMissingHost
  | IbMissingCredentials
  | IbConnector go_error
  | IbCreateRecord string go_error
  | IbUnknownRecordID string string
  | IbDeleteRecord string go_error

datatype ib_call =
    CallNewConnector HostConfig AuthConfig TransportConfig
  | CallCreateTXTRecord string string string "32 word" bool string
  | CallDeleteTXTRecord string
  | CallLogout

record 'w ib_outcome =
  ib_err :: "ib_error option"
  ib_prov :: ib_DNSProvider
  ib_world :: 'w
  ib_calls :: "ib_call list"

subsection \<open>Provider infoblox: operations\<close>

definition ib_NewDNSProviderConfig :: "ib_Config option \<Rightarrow> ib_error + ib_DNSProvider" where
  "ib_NewDNSProviderConfig cfg =
     (case cfg of
        None \<Rightarrow> Inl IbNilConfig
      | Some config \<Rightarrow>
          if ib_Host config = [] then Inl IbMissingHost
          else if ib_Username config = [] \<or> ib_Password config = [] then Inl IbMissingCredentials
          else
            (let sslVerify = (if ib_CACertificate config \<noteq> [] then ib_CACertificate config
                              else FormatBool (ib_SSLVerify config))
             in Inr \<lparr>ib_config = config,
                     transportConfig =
                       NewTransportConfig sslVerify (ib_HTTPTimeout config) defaultPoolConnections,
                     ibConfig = \<lparr>hc_Host = ib_Host config, hc_Version = ib_WapiVersion config,
                                 hc_Port = ib_Port config\<rparr>,
                     ibAuth = \<lparr>ac_Username = ib_Username config,
                               ac_Password = ib_Password config\<rparr>,
                     recordRefs = Map.empty\<rparr>))"

definition ib_Timeout :: "ib_DNSProvider \<Rightarrow> 'w \<Rightarrow> (int \<times> int) \<times> 'w ib_outcome" where
  "ib_Timeout d w =
     ((ib_PropagationTimeout (ib_config d), ib_PollingInterval (ib_config d)),
      \<lparr>ib_err = None, ib_prov = d, ib_world = w, ib_calls = []\<rparr>)"

text \<open>
  The deferred \<open>connector.Logout()\<close>: it runs when the method returns, after the result is
  fixed, and its own error is dropped.
\<close>

definition ib_deferred_Logout :: "'w Connector \<Rightarrow> 'w ib_outcome \<Rightarrow> 'w ib_outcome" where
  "ib_deferred_Logout connector out =
     (case Logout connector (ib_world out) of
        (_, w') \<Rightarrow> out\<lparr>ib_world := w', ib_calls := ib_calls out @ [CallLogout]\<rparr>)"

definition ib_Present ::
  "'w ib_env \<Rightarrow> ib_DNSProvider \<Rightarrow> string \<Rightarrow> string \<Rightarrow> string \<Rightarrow> 'w \<Rightarrow> 'w ib_outcome" where
  "ib_Present env d domain token keyAuth w =
     (let info = GetChallengeInfo (Digest env) domain keyAuth;
          c1 = [CallNewConnector (ibConfig d) (ibAuth d) (transportConfig d)]
      in case NewConnector env (ibConfig d) (ibAuth d) (transportConfig d) w of
           (Inl e, w1) \<Rightarrow>
             \<lparr>ib_err = Some (IbConnector e), ib_prov = d, ib_world = w1, ib_calls = c1\<rparr>
         | (Inr connector, w1) \<Rightarrow>
             ib_deferred_Logout connector
               (let objectManager = NewObjectManager env connector (useragent_Get env) [];
                    ttl = (word_of_int (ib_TTL (ib_config d)) :: 32 word);
                    c2 = c1 @ [CallCreateTXTRecord (ib_DNSView (ib_config d))
                                 (UnFqdn (EffectiveFQDN info)) (Value info) ttl True ''lego'']
                in case CreateTXTRecord objectManager (ib_DNSView (ib_config d))
                          (UnFqdn (EffectiveFQDN info)) (Value info) ttl True ''lego'' w1 of
                     (Inl e, w2) \<Rightarrow>
                       \<lparr>ib_err = Some (IbCreateRecord domain e), ib_prov = d, ib_world = w2,
                        ib_calls = c2\<rparr>
                   | (Inr record, w2) \<Rightarrow>
                       \<lparr>ib_err = None,
                        ib_prov = d\<lparr>recordRefs := (recordRefs d)(token \<mapsto> Ref record)\<rparr>,
                        ib_world = w2, ib_calls = c2\<rparr>))"

definition ib_CleanUp ::
  "'w ib_env \<Rightarrow> ib_DNSProvider \<Rightarrow> string \<Rightarrow> string \<Rightarrow> string \<Rightarrow> 'w \<Rightarrow> 'w ib_outcome" where
  "ib_CleanUp env d domain token keyAuth w =
     (let info = GetChallengeInfo (Digest env) domain keyAuth;
          c1 = [CallNewConnector (ibConfig d) (ibAuth d) (transportConfig d)]
      in case NewConnector env (ibConfig d) (ibAuth d) (transportConfig d) w of
           (Inl e, w1) \<Rightarrow>
             \<lparr>ib_err = Some (IbConnector e), ib_prov = d, ib_world = w1, ib_calls = c1\<rparr>
         | (Inr connector, w1) \<Rightarrow>
             ib_deferred_Logout connector
               (let objectManager = NewObjectManager env connector (useragent_Get env) []
                in case recordRefs d token of
                     None \<Rightarrow>
                       \<lparr>ib_err = Some (IbUnknownRecordID (EffectiveFQDN info) token),
                        ib_prov = d, ib_world = w1, ib_calls = c1\<rparr>
                   | Some recordRef \<Rightarrow>
                       (case DeleteTXTRecord objectManager recordRef w1 of
                          (Inl e, w2) \<Rightarrow>
                            \<lparr>ib_err = Some (IbDeleteRecord domain e), ib_prov = d,
                             ib_world = w2, ib_calls = c1 @ [CallDeleteTXTRecord recordRef]\<rparr>
                        | (Inr _, w2) \<Rightarrow>
                            \<lparr>ib_err = None,
                             ib_prov = d\<lparr>recordRefs := (recordRefs d)(token := None)\<rparr>,
                             ib_world = w2,
                             ib_calls = c1 @ [CallDeleteTXTRecord recordRef]\<rparr>)))"

subsection \<open>Histories of calls\<close>

text \<open>
  What a caller does with a provider over time: calls of \<open>Present\<close> and \<open>CleanUp\<close>, and,
  in between, changes of the world that do not pass through the provider (a record deleted
  out-of-band, for instance).
\<close>

datatype 'w op =
    OpPresent string string string
  | OpCleanUp string string string
  | Elsewhere "'w \<Rightarrow> 'w"

text \<open>A history entry records a \<open>Present\<close> of the token that returned \<open>nil\<close>.\<close>

fun presented :: "string \<Rightarrow> 'w op \<times> 'e option \<Rightarrow> bool" where
  "presented t (OpPresent domain token keyAuth, None) = (token = t)"
| "presented t (OpPresent domain token keyAuth, Some e) = False"
| "presented t (OpCleanUp domain token keyAuth, r) = False"
| "presented t (Elsewhere f, r) = False"

fun cf_step :: "'w cf_env \<Rightarrow> 'w op \<Rightarrow> 'w cf_DNSProvider \<Rightarrow> 'w \<Rightarrow> 'w cf_outcome" where
  "cf_step env (OpPresent domain token keyAuth) d w = cf_Present env d domain token keyAuth w"
| "cf_step env (OpCleanUp domain token keyAuth) d w = cf_CleanUp env d domain token keyAuth w"
| "cf_step env (Elsewhere f) d w =
     \<lparr>cf_err = None, cf_prov = d, cf_world = f w, cf_calls = [], cf_logged = []\<rparr>"

text \<open>
  Running a history from a provider and a world: the provider and the world at the end, and
  the result of every step.
\<close>

fun cf_run ::
  "'w cf_env \<Rightarrow> 'w op list \<Rightarrow> 'w cf_DNSProvider \<Rightarrow> 'w
     \<Rightarrow> 'w cf_DNSProvider \<times> 'w \<times> ('w op \<times> cf_error option) list" where
  "cf_run env [] d w = (d, w, [])"
| "cf_run env (x # xs) d w =
     (let out = cf_step env x d w
      in case cf_run env xs (cf_prov out) (cf_world out) of
           (d', w', rs) \<Rightarrow> (d', w', (x, cf_err out) # rs))"

fun ib_step :: "'w ib_env \<Rightarrow> 'w op \<Rightarrow> ib_DNSProvider \<Rightarrow> 'w \<Rightarrow> 'w ib_outcome" where
  "ib_step env (OpPresent domain token keyAuth) d w = ib_Present env d domain token keyAuth w"
| "ib_step env (OpCleanUp domain token keyAuth) d w = ib_CleanUp env d domain token keyAuth w"
| "ib_step env (Elsewhere f) d w = \<lparr>ib_err = None, ib_prov = d, ib_world = f w, ib_calls = []\<rparr>"

fun ib_run ::
  "'w ib_env \<Rightarrow> 'w op list \<Rightarrow> ib_DNSProvider \<Rightarrow> 'w
     \<Rightarrow> ib_DNSProvider \<times> 'w \<times> ('w op \<times> ib_error option) list" where
  "ib_run env [] d w = (d, w, [])"
| "ib_run env (x # xs) d w =
     (let out = ib_step env x d w
      in case ib_run env xs (ib_prov out) (ib_world out) of
           (d', w', rs) \<Rightarrow> (d', w', (x, ib_err out) # rs))"

text \<open>The calls that delete a record at the backend.\<close>

fun cf_is_delete :: "cf_call \<Rightarrow> bool" where
  "cf_is_delete (CallDeleteDNSRecord zoneID recordID) = True"
| "cf_is_delete (CallFindZoneByFqdn fqdn) = False"
| "cf_is_delete (CallZoneIDByName authZone) = False"
| "cf_is_delete (CallCreateDNSRecord zoneID r) = False"

fun ib_is_delete :: "ib_call \<Rightarrow> bool" where
  "ib_is_delete (CallDeleteTXTRecord ref) = True"
| "ib_is_delete (CallNewConnector hc ac tc) = False"
| "ib_is_delete (CallCreateTXTRecord view name text ttl useTtl comment) = False"
| "ib_is_delete CallLogout = False"

subsection \<open>A small backend to run the providers on\<close>

text \<open>
  A world for concrete runs: the list of the identifiers of the TXT records that are live
  at the backend. Creation fails for a record that is already there, deletion fails for a
  record that is not.
\<close>

type_synonym demo_world = "string list"

definition demo_client :: "demo_world metaClient" where
  "demo_client =
     \<lparr>ZoneIDByName = (\<lambda>authZone w.
        if authZone = ''example.com.'' then (Inr ''zone-1'', w)
        else (Inl ''zone could not be found'', w)),
      CreateDNSRecord = (\<lambda>zoneID r w.
        if (''id-'' @ Name r) \<in> set w then (Inl ''record already exists'', w)
        else (Inr (r\<lparr>ID := ''id-'' @ Name r\<rparr>), (''id-'' @ Name r) # w)),
      DeleteDNSRecord = (\<lambda>zoneID recordID w.
        if recordID \<in> set w then (None, removeAll recordID w)
        else (Some ''record not found'', w))\<rparr>"

definition demo_cf_env :: "demo_world cf_env" where
  "demo_cf_env =
     \<lparr>Digest = (\<lambda>keyAuth. ''sha-'' @ rev keyAuth),
      newClient = (\<lambda>config.
        if cf_AuthToken config = [] then Inl ''invalid credentials'' else Inr demo_client),
      FindZoneByFqdn = (\<lambda>fqdn w.
        if fqdn = ''_acme-challenge.example.com.'' \<or> fqdn = ''_acme-challenge.www.example.com.''
        then (Inr ''example.com.'', w)
        else (Inl ''could not find the start of authority'', w))\<rparr>"

definition demo_cf_config :: "int \<Rightarrow> cf_Config" where
  "demo_cf_config ttl =
     \<lparr>cf_AuthEmail = [], cf_AuthKey = [], cf_AuthToken = ''token'', cf_ZoneToken = [],
      cf_BaseURL = [], cf_TTL = ttl, cf_PropagationTimeout = 120000000000,
      cf_PollingInterval = 2000000000, cf_HTTPClient = Some 30000000000\<rparr>"

definition demo_cf_provider :: "demo_world cf_DNSProvider" where
  "demo_cf_provider =
     \<lparr>cf_client = demo_client, cf_config = demo_cf_config 300, recordIDs = Map.empty\<rparr>"

definition demo_connector :: "demo_world Connector" where
  "demo_connector = \<lparr>Logout = (\<lambda>w. (None, w))\<rparr>"

definition demo_manager :: "demo_world ObjectManager" where
  "demo_manager =
     \<lparr>CreateTXTRecord = (\<lambda>view name text ttl useTtl comment w.
        if (''record:txt/'' @ name) \<in> set w then (Inl ''record already exists'', w)
        else (Inr \<lparr>Ref = ''record:txt/'' @ name\<rparr>, (''record:txt/'' @ name) # w)),
      DeleteTXTRecord = (\<lambda>ref w.
        if ref \<in> set w then (Inr ref, removeAll ref w)
        else (Inl ''record not found'', w))\<rparr>"

definition demo_ib_env :: "demo_world ib_env" where
  "demo_ib_env =
     \<lparr>Digest = (\<lambda>keyAuth. ''sha-'' @ rev keyAuth),
      NewConnector = (\<lambda>hc ac tc w.
        if ac_Password ac = ''secret'' then (Inr demo_connector, w)
        else (Inl ''authentication failed'', w)),
      NewObjectManager = (\<lambda>connector cmpType tenantID. demo_manager),
      useragent_Get = ''goacme-lego''\<rparr>"

definition demo_ib_config :: ib_Config where
  "demo_ib_config =
     \<lparr>ib_Host = ''grid.example.com'', ib_Port = ''443'', ib_Username = ''admin'',
      ib_Password = ''secret'', ib_DNSView = ''External'', ib_WapiVersion = ''2.11'',
      ib_SSLVerify = True, ib_CACertificate = [], ib_PropagationTimeout = 60000000000,
      ib_PollingInterval = 2000000000, ib_TTL = 120, ib_HTTPTimeout = 30\<rparr>"

definition demo_ib_provider :: ib_DNSProvider where
  "demo_ib_provider =
     \<lparr>ib_config = demo_ib_config,
      transportConfig = \<lparr>tc_sslVerify = ''true'', tc_httpRequestTimeout = 30,
                         tc_poolConnections = 10\<rparr>,
      ibConfig = \<lparr>hc_Host = ''grid.example.com'', hc_Version = ''2.11'', hc_Port = ''443''\<rparr>,
      ibAuth = \<lparr>ac_Username = ''admin'', ac_Password = ''secret''\<rparr>,
      recordRefs = Map.empty\<rparr>"

text \<open>
  A history on the small backend: a \<open>Present\<close> for the token \<open>tok\<close>, then a \<open>CleanUp\<close> for
  a token that was never presented; and the two providers as they are after it.
\<close>

definition demo_history :: "demo_world op list" where
  "demo_history =
     [OpPresent ''example.com'' ''tok'' ''ka'', OpCleanUp ''example.com'' ''other'' ''ka'']"

definition demo_cf_stored :: "demo_world cf_DNSProvider" where
  "demo_cf_stored =
     demo_cf_provider\<lparr>recordIDs := [''tok'' \<mapsto> ''id-_acme-challenge.example.com'']\<rparr>"

definition demo_ib_stored :: ib_DNSProvider where
  "demo_ib_stored =
     demo_ib_provider\<lparr>recordRefs := [''tok'' \<mapsto> ''record:txt/_acme-challenge.example.com'']\<rparr>"

section \<open>Properties\<close>

subsection \<open>Evaluating the small backend\<close>

lemma demo_cf_construct:
  "cf_NewDNSProviderConfig demo_cf_env (Some (demo_cf_config 300)) = Inr demo_cf_provider"
  by (simp add: cf_NewDNSProviderConfig_def demo_cf_env_def demo_cf_config_def
      demo_cf_provider_def minTTL_def)

lemma demo_ib_construct:
  "ib_NewDNSProviderConfig (Some demo_ib_config) = Inr demo_ib_provider"
  by (simp add: ib_NewDNSProviderConfig_def demo_ib_config_def demo_ib_provider_def
      NewTransportConfig_def FormatBool_def defaultPoolConnections_def)

lemma demo_info:
  "GetChallengeInfo (Digest demo_cf_env) ''example.com'' ''ka'' =
     \<lparr>EffectiveFQDN = ''_acme-challenge.example.com.'', Value = ''sha-ak''\<rparr>"
  "GetChallengeInfo (Digest demo_ib_env) ''example.com'' ''ka'' =
     \<lparr>EffectiveFQDN = ''_acme-challenge.example.com.'', Value = ''sha-ak''\<rparr>"
  by (simp_all add: GetChallengeInfo_def demo_cf_env_def demo_ib_env_def challengeLabel_def
      absolute_form_def)


lemmas demo_defs = demo_cf_env_def demo_cf_provider_def demo_client_def demo_cf_config_def
  demo_ib_env_def demo_ib_provider_def demo_ib_config_def demo_connector_def demo_manager_def
  GetChallengeInfo_def challengeLabel_def absolute_form_def UnFqdn_def Let_def

subsection \<open>What the Cloudflare methods do to the provider\<close>

lemma cf_Present_frame:
  "cf_client (cf_prov (cf_Present env d domain token keyAuth w)) = cf_client d"
  "cf_config (cf_prov (cf_Present env d domain token keyAuth w)) = cf_config d"
  by (simp_all add: cf_Present_def Let_def split: prod.splits sum.splits)

lemma cf_CleanUp_frame:
  "cf_client (cf_prov (cf_CleanUp env d domain token keyAuth w)) = cf_client d"
  "cf_config (cf_prov (cf_CleanUp env d domain token keyAuth w)) = cf_config d"
  by (simp_all add: cf_CleanUp_def Let_def split: prod.splits sum.splits option.splits)

lemma cf_Present_error_keeps:
  "cf_err (cf_Present env d domain token keyAuth w) \<noteq> None
     \<Longrightarrow> cf_prov (cf_Present env d domain token keyAuth w) = d"
  by (simp add: cf_Present_def Let_def split: prod.splits sum.splits)

lemma cf_Present_store:
  "recordIDs (cf_prov (cf_Present env d domain token keyAuth w)) t \<noteq> None
     \<Longrightarrow> recordIDs d t \<noteq> None \<or> (t = token \<and> cf_err (cf_Present env d domain token keyAuth w) = None)"
  by (auto simp add: cf_Present_def Let_def split: prod.splits sum.splits if_splits)

lemma cf_Present_ok_stores:
  "cf_err (cf_Present env d domain token keyAuth w) = None
     \<Longrightarrow> recordIDs (cf_prov (cf_Present env d domain token keyAuth w)) token \<noteq> None"
  by (auto simp add: cf_Present_def Let_def split: prod.splits sum.splits if_splits)

lemma cf_CleanUp_store:
  "recordIDs (cf_prov (cf_CleanUp env d domain token keyAuth w)) t \<noteq> None \<Longrightarrow> recordIDs d t \<noteq> None"
  by (auto simp add: cf_CleanUp_def Let_def split: prod.splits sum.splits option.splits if_splits)

lemma cf_CleanUp_ok_removes:
  "cf_err (cf_CleanUp env d domain token keyAuth w) = None
     \<Longrightarrow> recordIDs (cf_prov (cf_CleanUp env d domain token keyAuth w)) token = None"
  by (auto simp add: cf_CleanUp_def Let_def split: prod.splits sum.splits option.splits if_splits)

lemma cf_step_frame:
  "cf_client (cf_prov (cf_step env x d w)) = cf_client d"
  "cf_config (cf_prov (cf_step env x d w)) = cf_config d"
  by (cases x; simp add: cf_Present_frame cf_CleanUp_frame)+

lemma cf_step_store:
  "recordIDs (cf_prov (cf_step env x d w)) t \<noteq> None
     \<Longrightarrow> recordIDs d t \<noteq> None \<or> presented t (x, cf_err (cf_step env x d w))"
proof (cases x)
  case (OpPresent domain token keyAuth)
  assume "recordIDs (cf_prov (cf_step env x d w)) t \<noteq> None"
  with OpPresent show ?thesis
    using cf_Present_store [of env d domain token keyAuth w t] by auto
next
  case (OpCleanUp domain token keyAuth)
  assume "recordIDs (cf_prov (cf_step env x d w)) t \<noteq> None"
  with OpCleanUp show ?thesis
    using cf_CleanUp_store [of env d domain token keyAuth w t] by simp
next
  case (Elsewhere f)
  assume "recordIDs (cf_prov (cf_step env x d w)) t \<noteq> None"
  with Elsewhere show ?thesis by simp
qed

lemma cf_run_frame:
  "cf_run env xs d w = (d', w', rs) \<Longrightarrow> cf_client d' = cf_client d \<and> cf_config d' = cf_config d"
proof (induction xs arbitrary: d w rs)
  case Nil
  then show ?case by simp
next
  case (Cons x xs)
  then show ?case
    by (auto simp add: Let_def cf_step_frame split: prod.splits)
qed

lemma cf_run_store:
  "cf_run env xs d w = (d', w', rs) \<Longrightarrow> recordIDs d' t \<noteq> None
     \<Longrightarrow> recordIDs d t \<noteq> None \<or> list_ex (presented t) rs"
proof (induction xs arbitrary: d w rs)
  case Nil
  then show ?case by simp
next
  case (Cons x xs)
  obtain rs' where
    run: "cf_run env xs (cf_prov (cf_step env x d w)) (cf_world (cf_step env x d w)) = (d', w', rs')"
    and rs: "rs = (x, cf_err (cf_step env x d w)) # rs'"
    using Cons.prems(1) by (auto simp add: Let_def split: prod.splits)
  from Cons.IH [OF run Cons.prems(2)]
  have "recordIDs (cf_prov (cf_step env x d w)) t \<noteq> None \<or> list_ex (presented t) rs'" .
  then show ?case
    using cf_step_store [of env x d w t] rs by auto
qed

subsection \<open>What the Infoblox methods do to the provider\<close>

lemma ib_Present_frame:
  "ib_config (ib_prov (ib_Present env d domain token keyAuth w)) = ib_config d"
  "ibConfig (ib_prov (ib_Present env d domain token keyAuth w)) = ibConfig d"
  "ibAuth (ib_prov (ib_Present env d domain token keyAuth w)) = ibAuth d"
  "transportConfig (ib_prov (ib_Present env d domain token keyAuth w)) = transportConfig d"
  by (simp_all add: ib_Present_def ib_deferred_Logout_def Let_def split: prod.splits sum.splits)

lemma ib_CleanUp_frame:
  "ib_config (ib_prov (ib_CleanUp env d domain token keyAuth w)) = ib_config d"
  "ibConfig (ib_prov (ib_CleanUp env d domain token keyAuth w)) = ibConfig d"
  "ibAuth (ib_prov (ib_CleanUp env d domain token keyAuth w)) = ibAuth d"
  "transportConfig (ib_prov (ib_CleanUp env d domain token keyAuth w)) = transportConfig d"
  by (simp_all add: ib_CleanUp_def ib_deferred_Logout_def Let_def
      split: prod.splits sum.splits option.splits)

lemma ib_Present_error_keeps:
  "ib_err (ib_Present env d domain token keyAuth w) \<noteq> None
     \<Longrightarrow> ib_prov (ib_Present env d domain token keyAuth w) = d"
  by (simp add: ib_Present_def ib_deferred_Logout_def Let_def split: prod.splits sum.splits)

lemma ib_Present_store:
  "recordRefs (ib_prov (ib_Present env d domain token keyAuth w)) t \<noteq> None
     \<Longrightarrow> recordRefs d t \<noteq> None \<or> (t = token \<and> ib_err (ib_Present env d domain token keyAuth w) = None)"
  by (auto simp add: ib_Present_def ib_deferred_Logout_def Let_def
      split: prod.splits sum.splits if_splits)

lemma ib_Present_ok_stores:
  "ib_err (ib_Present env d domain token keyAuth w) = None
     \<Longrightarrow> recordRefs (ib_prov (ib_Present env d domain token keyAuth w)) token \<noteq> None"
  by (auto simp add: ib_Present_def ib_deferred_Logout_def Let_def
      split: prod.splits sum.splits if_splits)

lemma ib_CleanUp_store:
  "recordRefs (ib_prov (ib_CleanUp env d domain token keyAuth w)) t \<noteq> None \<Longrightarrow> recordRefs d t \<noteq> None"
  by (auto simp add: ib_CleanUp_def ib_deferred_Logout_def Let_def
      split: prod.splits sum.splits option.splits if_splits)

lemma ib_CleanUp_ok_removes:
  "ib_err (ib_CleanUp env d domain token keyAuth w) = None
     \<Longrightarrow> recordRefs (ib_prov (ib_CleanUp env d domain token keyAuth w)) token = None"
  by (auto simp add: ib_CleanUp_def ib_deferred_Logout_def Let_def
      split: prod.splits sum.splits option.splits if_splits)

lemma ib_step_frame:
  "ib_config (ib_prov (ib_step env x d w)) = ib_config d"
  "ibConfig (ib_prov (ib_step env x d w)) = ibConfig d"
  "ibAuth (ib_prov (ib_step env x d w)) = ibAuth d"
  "transportConfig (ib_prov (ib_step env x d w)) = transportConfig d"
  by (cases x; simp add: ib_Present_frame ib_CleanUp_frame)+

lemma ib_step_store:
  "recordRefs (ib_prov (ib_step env x d w)) t \<noteq> None
     \<Longrightarrow> recordRefs d t \<noteq> None \<or> presented t (x, ib_err (ib_step env x d w))"
proof (cases x)
  case (OpPresent domain token keyAuth)
  assume "recordRefs (ib_prov (ib_step env x d w)) t \<noteq> None"
  with OpPresent show ?thesis
    using ib_Present_store [of env d domain token keyAuth w t] by auto
next
  case (OpCleanUp domain token keyAuth)
  assume "recordRefs (ib_prov (ib_step env x d w)) t \<noteq> None"
  with OpCleanUp show ?thesis
    using ib_CleanUp_store [of env d domain token keyAuth w t] by simp
next
  case (Elsewhere f)
  assume "recordRefs (ib_prov (ib_step env x d w)) t \<noteq> None"
  with Elsewhere show ?thesis by simp
qed

lemma ib_run_frame:
  "ib_run env xs d w = (d', w', rs)
     \<Longrightarrow> ib_config d' = ib_config d \<and> ibConfig d' = ibConfig d \<and> ibAuth d' = ibAuth d
         \<and> transportConfig d' = transportConfig d"
proof (induction xs arbitrary: d w rs)
  case Nil
  then show ?case by simp
next
  case (Cons x xs)
  then show ?case
    by (auto simp add: Let_def ib_step_frame split: prod.splits)
qed

lemma ib_run_store:
  "ib_run env xs d w = (d', w', rs) \<Longrightarrow> recordRefs d' t \<noteq> None
     \<Longrightarrow> recordRefs d t \<noteq> None \<or> list_ex (presented t) rs"
proof (induction xs arbitrary: d w rs)
  case Nil
  then show ?case by simp
next
  case (Cons x xs)
  obtain rs' where
    run: "ib_run env xs (ib_prov (ib_step env x d w)) (ib_world (ib_step env x d w)) = (d', w', rs')"
    and rs: "rs = (x, ib_err (ib_step env x d w)) # rs'"
    using Cons.prems(1) by (auto simp add: Let_def split: prod.splits)
  from Cons.IH [OF run Cons.prems(2)]
  have "recordRefs (ib_prov (ib_step env x d w)) t \<noteq> None \<or> list_ex (presented t) rs'" .
  then show ?case
    using ib_step_store [of env x d w t] rs by auto
qed

subsection \<open>Construction and runs on the small backend\<close>

lemma cf_construct_config:
  "cf_NewDNSProviderConfig env cfg = Inr d \<Longrightarrow> cfg = Some (cf_config d) \<and> recordIDs d = Map.empty"
  by (auto simp add: cf_NewDNSProviderConfig_def split: option.splits sum.splits if_splits)

lemma ib_construct_config:
  "ib_NewDNSProviderConfig cfg = Inr d \<Longrightarrow> cfg = Some (ib_config d) \<and> recordRefs d = Map.empty"
  by (auto simp add: ib_NewDNSProviderConfig_def Let_def split: option.splits if_splits)

lemma demo_cf_present:
  "cf_Present demo_cf_env demo_cf_provider ''example.com'' ''tok'' ''ka'' [] =
     \<lparr>cf_err = None, cf_prov = demo_cf_stored, cf_world = [''id-_acme-challenge.example.com''],
      cf_calls = [CallFindZoneByFqdn ''_acme-challenge.example.com.'',
                  CallZoneIDByName ''example.com.'',
                  CallCreateDNSRecord ''zone-1''
                    \<lparr>ID = [], Type = ''TXT'', Name = ''_acme-challenge.example.com'',
                     Content = dquote @ ''sha-ak'' @ dquote, TTL = 300\<rparr>],
      cf_logged = [LogNewRecord ''example.com'' ''id-_acme-challenge.example.com'']\<rparr>"
  by (simp add: cf_Present_def demo_cf_stored_def demo_defs)

lemma demo_ib_present:
  "ib_Present demo_ib_env demo_ib_provider ''example.com'' ''tok'' ''ka'' [] =
     \<lparr>ib_err = None, ib_prov = demo_ib_stored,
      ib_world = [''record:txt/_acme-challenge.example.com''],
      ib_calls = [CallNewConnector (ibConfig demo_ib_provider) (ibAuth demo_ib_provider)
                    (transportConfig demo_ib_provider),
                  CallCreateTXTRecord ''External'' ''_acme-challenge.example.com'' ''sha-ak''
                    120 True ''lego'',
                  CallLogout]\<rparr>"
  by (simp add: ib_Present_def ib_deferred_Logout_def demo_ib_stored_def demo_defs)

lemma demo_cf_run:
  "cf_run demo_cf_env demo_history demo_cf_provider [] =
     (demo_cf_stored, [''id-_acme-challenge.example.com''],
      [(OpPresent ''example.com'' ''tok'' ''ka'', None),
       (OpCleanUp ''example.com'' ''other'' ''ka'',
          Some (CfUnknownRecordID ''_acme-challenge.example.com.''))])"
  by (simp add: demo_history_def demo_cf_stored_def cf_Present_def cf_CleanUp_def demo_defs)

lemma demo_ib_run:
  "ib_run demo_ib_env demo_history demo_ib_provider [] =
     (demo_ib_stored, [''record:txt/_acme-challenge.example.com''],
      [(OpPresent ''example.com'' ''tok'' ''ka'', None),
       (OpCleanUp ''example.com'' ''other'' ''ka'',
          Some (IbUnknownRecordID ''_acme-challenge.example.com.'' ''other''))])"
  by (simp add: demo_history_def demo_ib_stored_def ib_Present_def ib_CleanUp_def
      ib_deferred_Logout_def demo_defs)

subsection \<open>The paths through Present and CleanUp\<close>

lemma cf_Present_create_fails:
  assumes "FindZoneByFqdn env (EffectiveFQDN (GetChallengeInfo (Digest env) domain keyAuth)) w
             = (Inr authZone, w1)"
    and "ZoneIDByName (cf_client d) authZone w1 = (Inr zoneID, w2)"
    and "CreateDNSRecord (cf_client d) zoneID
           \<lparr>ID = [], Type = ''TXT'',
            Name = UnFqdn (EffectiveFQDN (GetChallengeInfo (Digest env) domain keyAuth)),
            Content = dquote @ Value (GetChallengeInfo (Digest env) domain keyAuth) @ dquote,
            TTL = cf_TTL (cf_config d)\<rparr> w2 = (Inl e, w3)"
  shows "cf_err (cf_Present env d domain token keyAuth w) = Some (CfCreateRecord e)
         \<and> cf_prov (cf_Present env d domain token keyAuth w) = d"
  using assms by (simp add: cf_Present_def Let_def)

lemma ib_Present_create_fails:
  assumes "NewConnector env (ibConfig d) (ibAuth d) (transportConfig d) w = (Inr connector, w1)"
    and "CreateTXTRecord (NewObjectManager env connector (useragent_Get env) [])
           (ib_DNSView (ib_config d))
           (UnFqdn (EffectiveFQDN (GetChallengeInfo (Digest env) domain keyAuth)))
           (Value (GetChallengeInfo (Digest env) domain keyAuth))
           (word_of_int (ib_TTL (ib_config d))) True ''lego'' w1 = (Inl e, w2)"
  shows "ib_err (ib_Present env d domain token keyAuth w) = Some (IbCreateRecord domain e)
         \<and> ib_prov (ib_Present env d domain token keyAuth w) = d"
  using assms by (simp add: ib_Present_def ib_deferred_Logout_def Let_def split: prod.splits)

lemma cf_Present_ok_ref:
  assumes "cf_err (cf_Present env d domain token keyAuth w) = None"
  shows "\<exists>zoneID r w2 response w3.
           CreateDNSRecord (cf_client d) zoneID r w2 = (Inr response, w3)
           \<and> recordIDs (cf_prov (cf_Present env d domain token keyAuth w))
               = (recordIDs d)(token \<mapsto> ID response)"
proof -
  from assms obtain authZone w1 zoneID w2 response w3 where
    p: "FindZoneByFqdn env (EffectiveFQDN (GetChallengeInfo (Digest env) domain keyAuth)) w
          = (Inr authZone, w1)"
       "ZoneIDByName (cf_client d) authZone w1 = (Inr zoneID, w2)"
       "CreateDNSRecord (cf_client d) zoneID
          \<lparr>ID = [], Type = ''TXT'',
           Name = UnFqdn (EffectiveFQDN (GetChallengeInfo (Digest env) domain keyAuth)),
           Content = dquote @ Value (GetChallengeInfo (Digest env) domain keyAuth) @ dquote,
           TTL = cf_TTL (cf_config d)\<rparr> w2 = (Inr response, w3)"
    by (auto simp add: cf_Present_def Let_def split: prod.split_asm sum.split_asm)
  then have "recordIDs (cf_prov (cf_Present env d domain token keyAuth w))
      = (recordIDs d)(token \<mapsto> ID response)"
    by (simp add: cf_Present_def Let_def)
  with p(3) show ?thesis by blast
qed

lemma ib_Present_ok_ref:
  assumes "ib_err (ib_Present env d domain token keyAuth w) = None"
  shows "\<exists>connector view name text ttl w1 record w2.
           CreateTXTRecord (NewObjectManager env connector (useragent_Get env) [])
             view name text ttl True ''lego'' w1 = (Inr record, w2)
           \<and> recordRefs (ib_prov (ib_Present env d domain token keyAuth w))
               = (recordRefs d)(token \<mapsto> Ref record)"
proof -
  from assms obtain connector w1 created w2 where
    p: "NewConnector env (ibConfig d) (ibAuth d) (transportConfig d) w = (Inr connector, w1)"
       "CreateTXTRecord (NewObjectManager env connector (useragent_Get env) [])
          (ib_DNSView (ib_config d))
          (UnFqdn (EffectiveFQDN (GetChallengeInfo (Digest env) domain keyAuth)))
          (Value (GetChallengeInfo (Digest env) domain keyAuth))
          (word_of_int (ib_TTL (ib_config d))) True ''lego'' w1 = (Inr created, w2)"
    by (auto simp add: ib_Present_def ib_deferred_Logout_def Let_def
        split: prod.split_asm sum.split_asm)
  then have "recordRefs (ib_prov (ib_Present env d domain token keyAuth w))
      = (recordRefs d)(token \<mapsto> Ref created)"
    by (simp add: ib_Present_def ib_deferred_Logout_def Let_def split: prod.splits)
  with p(2) show ?thesis by blast
qed

lemma cf_CleanUp_delete_fails:
  assumes "recordIDs d token = Some recordID"
    and "FindZoneByFqdn env (EffectiveFQDN (GetChallengeInfo (Digest env) domain keyAuth)) w
           = (Inr authZone, w1)"
    and "ZoneIDByName (cf_client d) authZone w1 = (Inr zoneID, w2)"
    and "DeleteDNSRecord (cf_client d) zoneID recordID w2 = (Some e, w3)"
  shows "cf_CleanUp env d domain token keyAuth w =
      \<lparr>cf_err = None, cf_prov = d\<lparr>recordIDs := (recordIDs d)(token := None)\<rparr>, cf_world = w3,
       cf_calls = [CallFindZoneByFqdn (EffectiveFQDN (GetChallengeInfo (Digest env) domain keyAuth)),
                   CallZoneIDByName authZone, CallDeleteDNSRecord zoneID recordID],
       cf_logged = [LogDeleteFailed e]\<rparr>"
  using assms by (simp add: cf_CleanUp_def Let_def)

lemma ib_CleanUp_delete_fails:
  assumes "recordRefs d token = Some recordRef"
    and "NewConnector env (ibConfig d) (ibAuth d) (transportConfig d) w = (Inr connector, w1)"
    and "DeleteTXTRecord (NewObjectManager env connector (useragent_Get env) []) recordRef w1
           = (Inl e, w2)"
  shows "ib_err (ib_CleanUp env d domain token keyAuth w) = Some (IbDeleteRecord domain e)
    \<and> ib_prov (ib_CleanUp env d domain token keyAuth w) = d
    \<and> ib_calls (ib_CleanUp env d domain token keyAuth w) =
        [CallNewConnector (ibConfig d) (ibAuth d) (transportConfig d),
         CallDeleteTXTRecord recordRef, CallLogout]"
  using assms by (simp add: ib_CleanUp_def ib_deferred_Logout_def Let_def split: prod.splits)

lemma cf_CleanUp_unknown:
  assumes "recordIDs d token = None"
  shows "cf_err (cf_CleanUp env d domain token keyAuth w) =
      (case FindZoneByFqdn env (EffectiveFQDN (GetChallengeInfo (Digest env) domain keyAuth)) w of
         (Inl e, w1) \<Rightarrow> Some (CfFindZone domain e)
       | (Inr authZone, w1) \<Rightarrow>
           (case ZoneIDByName (cf_client d) authZone w1 of
              (Inl e, w2) \<Rightarrow> Some (CfZoneID authZone e)
            | (Inr zoneID, w2) \<Rightarrow>
                Some (CfUnknownRecordID (EffectiveFQDN (GetChallengeInfo (Digest env) domain keyAuth)))))"
    and "cf_calls (cf_CleanUp env d domain token keyAuth w) =
      (case FindZoneByFqdn env (EffectiveFQDN (GetChallengeInfo (Digest env) domain keyAuth)) w of
         (Inl e, w1) \<Rightarrow> [CallFindZoneByFqdn (EffectiveFQDN (GetChallengeInfo (Digest env) domain keyAuth))]
       | (Inr authZone, w1) \<Rightarrow>
           [CallFindZoneByFqdn (EffectiveFQDN (GetChallengeInfo (Digest env) domain keyAuth)),
            CallZoneIDByName authZone])"
    and "cf_prov (cf_CleanUp env d domain token keyAuth w) = d"
  using assms by (simp_all add: cf_CleanUp_def Let_def split: prod.splits sum.splits)

lemma ib_CleanUp_unknown:
  assumes "recordRefs d token = None"
  shows "ib_err (ib_CleanUp env d domain token keyAuth w) =
      (case NewConnector env (ibConfig d) (ibAuth d) (transportConfig d) w of
         (Inl e, w1) \<Rightarrow> Some (IbConnector e)
       | (Inr connector, w1) \<Rightarrow>
           Some (IbUnknownRecordID (EffectiveFQDN (GetChallengeInfo (Digest env) domain keyAuth)) token))"
    and "ib_calls (ib_CleanUp env d domain token keyAuth w) =
      (case NewConnector env (ibConfig d) (ibAuth d) (transportConfig d) w of
         (Inl e, w1) \<Rightarrow> [CallNewConnector (ibConfig d) (ibAuth d) (transportConfig d)]
       | (Inr connector, w1) \<Rightarrow>
           [CallNewConnector (ibConfig d) (ibAuth d) (transportConfig d), CallLogout])"
    and "ib_prov (ib_CleanUp env d domain token keyAuth w) = d"
  using assms
  by (simp_all add: ib_CleanUp_def ib_deferred_Logout_def Let_def split: prod.splits sum.splits)

lemma cf_never_presented:
  assumes "cf_NewDNSProviderConfig env cfg = Inr d0"
    and "cf_run env hist d0 w0 = (d, w, rs)"
    and "\<not> list_ex (presented token) rs"
  shows "recordIDs d token = None"
proof -
  have fresh: "recordIDs d0 token = None"
    using assms(1) cf_construct_config [of env cfg d0] by simp
  show ?thesis
  proof (rule ccontr)
    assume "recordIDs d token \<noteq> None"
    from cf_run_store [OF assms(2) this] fresh assms(3) show False by simp
  qed
qed

lemma ib_never_presented:
  assumes "ib_NewDNSProviderConfig cfg = Inr d0"
    and "ib_run env hist d0 w0 = (d, w, rs)"
    and "\<not> list_ex (presented token) rs"
  shows "recordRefs d token = None"
proof -
  have fresh: "recordRefs d0 token = None"
    using assms(1) ib_construct_config [of cfg d0] by simp
  show ?thesis
  proof (rule ccontr)
    assume "recordRefs d token \<noteq> None"
    from ib_run_store [OF assms(2) this] fresh assms(3) show False by simp
  qed
qed

subsection \<open>Names and the calls that carry them\<close>






subsection \<open>Construction: the TTL floor of the Cloudflare provider\<close>

text \<open>
  Claim C5. A Cloudflare configuration whose TTL is below the minimum of 120 is refused by
  \<open>NewDNSProviderConfig\<close> with the invalid-TTL error, whatever the rest of the configuration
  and whatever \<open>newClient\<close> would do. Nothing is clamped: a provider that was constructed
  holds exactly the configuration it was given, so its TTL is the configured one (and is
  at least 120).
\<close>

theorem cf_ttl_floor:
  "(cf_TTL config < 120 \<longrightarrow>
      cf_NewDNSProviderConfig env (Some config) = Inl (CfInvalidTTL (cf_TTL config) 120))
   \<and> (cf_NewDNSProviderConfig env cfg = Inr d \<longrightarrow>
        cfg = Some (cf_config d) \<and> 120 \<le> cf_TTL (cf_config d))"
  by (auto simp add: cf_NewDNSProviderConfig_def minTTL_def
      split: option.splits sum.splits if_splits)

theorem cf_ttl_floor_witness:
  "cf_TTL (demo_cf_config 60) < 120
   \<and> cf_NewDNSProviderConfig demo_cf_env (Some (demo_cf_config 60)) = Inl (CfInvalidTTL 60 120)
   \<and> cf_NewDNSProviderConfig demo_cf_env (Some (demo_cf_config 300)) = Inr demo_cf_provider
   \<and> cf_TTL (cf_config demo_cf_provider) = 300"
  using cf_ttl_floor [of "demo_cf_config 60" demo_cf_env "Some (demo_cf_config 300)" demo_cf_provider]
    demo_cf_construct
  by (simp add: demo_cf_config_def demo_cf_provider_def)

text \<open>
  Claim C10. The TTL check of the Cloudflare constructor refuses exactly the TTLs strictly
  below 120: the invalid-TTL error is returned if and only if the TTL is less than 120. A
  configuration with a TTL of exactly 120 passes the check, although the message of the
  error says that the TTL must be greater than 120; what is returned then is decided by
  \<open>newClient\<close> alone.
\<close>

theorem cf_ttl_check_boundary:
  "((\<exists>ttl m. cf_NewDNSProviderConfig env (Some config) = Inl (CfInvalidTTL ttl m))
      = (cf_TTL config < 120))
   \<and> (cf_TTL config = 120 \<longrightarrow>
        cf_NewDNSProviderConfig env (Some config) =
          (case newClient env config of
             Inl e \<Rightarrow> Inl (CfNewClient e)
           | Inr client \<Rightarrow> Inr \<lparr>cf_client = client, cf_config = config, recordIDs = Map.empty\<rparr>))
   \<and> (cf_TTL config < 120 \<longrightarrow>
        cf_NewDNSProviderConfig env (Some config) = Inl (CfInvalidTTL (cf_TTL config) 120))"
  by (auto simp add: cf_NewDNSProviderConfig_def minTTL_def
      split: option.splits sum.splits if_splits)

theorem cf_ttl_check_boundary_witness:
  "cf_TTL (demo_cf_config 120) = 120
   \<and> cf_NewDNSProviderConfig demo_cf_env (Some (demo_cf_config 120)) =
       Inr \<lparr>cf_client = demo_client, cf_config = demo_cf_config 120, recordIDs = Map.empty\<rparr>
   \<and> cf_TTL (demo_cf_config 119) < 120
   \<and> cf_NewDNSProviderConfig demo_cf_env (Some (demo_cf_config 119)) = Inl (CfInvalidTTL 119 120)"
  using cf_ttl_check_boundary [of demo_cf_env "demo_cf_config 120"]
    cf_ttl_check_boundary [of demo_cf_env "demo_cf_config 119"]
  by (simp add: demo_cf_config_def demo_cf_env_def)

subsection \<open>Timeout\<close>

text \<open>
  Claim C7. For a provider that was constructed from a configuration, and after any history
  of \<open>Present\<close> and \<open>CleanUp\<close> calls and changes of the world, \<open>Timeout\<close> returns the pair
  (\<open>PropagationTimeout\<close>, \<open>PollingInterval\<close>) of that configuration, makes no call to a
  collaborator, and leaves the provider (its record-reference store included) and the world
  as they were. This holds for the Cloudflare and for the Infoblox provider.
\<close>

theorem timeout_accessor:
  "(cf_NewDNSProviderConfig cenv (Some ccfg) = Inr cd0
      \<and> cf_run cenv chist cd0 cw0 = (cd, cw, crs) \<longrightarrow>
      cf_Timeout cd w =
        ((cf_PropagationTimeout ccfg, cf_PollingInterval ccfg),
         \<lparr>cf_err = None, cf_prov = cd, cf_world = w, cf_calls = [], cf_logged = []\<rparr>))
   \<and> (ib_NewDNSProviderConfig (Some icfg) = Inr id0
      \<and> ib_run ienv ihist id0 iw0 = (idp, iw, irs) \<longrightarrow>
      ib_Timeout idp w' =
        ((ib_PropagationTimeout icfg, ib_PollingInterval icfg),
         \<lparr>ib_err = None, ib_prov = idp, ib_world = w', ib_calls = []\<rparr>))"
proof (intro conjI impI)
  assume a: "cf_NewDNSProviderConfig cenv (Some ccfg) = Inr cd0
    \<and> cf_run cenv chist cd0 cw0 = (cd, cw, crs)"
  then have "cf_config cd0 = ccfg"
    using cf_construct_config [of cenv "Some ccfg" cd0] by simp
  moreover have "cf_config cd = cf_config cd0"
    using a cf_run_frame [of cenv chist cd0 cw0 cd cw crs] by simp
  ultimately show "cf_Timeout cd w =
        ((cf_PropagationTimeout ccfg, cf_PollingInterval ccfg),
         \<lparr>cf_err = None, cf_prov = cd, cf_world = w, cf_calls = [], cf_logged = []\<rparr>)"
    by (simp add: cf_Timeout_def)
next
  assume a: "ib_NewDNSProviderConfig (Some icfg) = Inr id0
    \<and> ib_run ienv ihist id0 iw0 = (idp, iw, irs)"
  then have "ib_config id0 = icfg"
    using ib_construct_config [of "Some icfg" id0] by simp
  moreover have "ib_config idp = ib_config id0"
    using a ib_run_frame [of ienv ihist id0 iw0 idp iw irs] by simp
  ultimately show "ib_Timeout idp w' =
        ((ib_PropagationTimeout icfg, ib_PollingInterval icfg),
         \<lparr>ib_err = None, ib_prov = idp, ib_world = w', ib_calls = []\<rparr>)"
    by (simp add: ib_Timeout_def)
qed

theorem timeout_accessor_witness:
  "cf_NewDNSProviderConfig demo_cf_env (Some (demo_cf_config 300)) = Inr demo_cf_provider
   \<and> fst (cf_run demo_cf_env demo_history demo_cf_provider []) = demo_cf_stored
   \<and> cf_Timeout demo_cf_stored [''id-_acme-challenge.example.com''] =
       ((120000000000, 2000000000),
        \<lparr>cf_err = None, cf_prov = demo_cf_stored,
         cf_world = [''id-_acme-challenge.example.com''], cf_calls = [], cf_logged = []\<rparr>)
   \<and> ib_NewDNSProviderConfig (Some demo_ib_config) = Inr demo_ib_provider
   \<and> fst (ib_run demo_ib_env demo_history demo_ib_provider []) = demo_ib_stored
   \<and> ib_Timeout demo_ib_stored [''record:txt/_acme-challenge.example.com''] =
       ((60000000000, 2000000000),
        \<lparr>ib_err = None, ib_prov = demo_ib_stored,
         ib_world = [''record:txt/_acme-challenge.example.com''], ib_calls = []\<rparr>)"
  using timeout_accessor [where cenv = demo_cf_env and ccfg = "demo_cf_config 300"
      and ?cd0.0 = demo_cf_provider and chist = demo_history and ?cw0.0 = "[]"
      and cd = demo_cf_stored and cw = "[''id-_acme-challenge.example.com'']"
      and w = "[''id-_acme-challenge.example.com'']"
      and icfg = demo_ib_config and ?id0.0 = demo_ib_provider and ienv = demo_ib_env
      and ihist = demo_history and ?iw0.0 = "[]" and idp = demo_ib_stored
      and iw = "[''record:txt/_acme-challenge.example.com'']"
      and w' = "[''record:txt/_acme-challenge.example.com'']"]
    demo_cf_construct demo_ib_construct demo_cf_run demo_ib_run
  by (simp add: demo_cf_config_def demo_ib_config_def)

subsection \<open>Present when the creation fails\<close>

text \<open>
  Claim C4. When the record-creation step of \<open>Present\<close> fails, that is, when the steps before
  it succeeded and the backend's create call returns an error, \<open>Present\<close> returns that error
  wrapped in the provider's creation error, and the provider is left as it was: no entry
  of the record-reference store is added or overwritten. This holds for the Cloudflare and
  for the Infoblox provider.
\<close>

theorem present_create_failure:
  "(FindZoneByFqdn cenv (EffectiveFQDN (GetChallengeInfo (Digest cenv) domain keyAuth)) cw
        = (Inr authZone, cw1)
      \<and> ZoneIDByName (cf_client cd) authZone cw1 = (Inr zoneID, cw2)
      \<and> CreateDNSRecord (cf_client cd) zoneID
           \<lparr>ID = [], Type = ''TXT'',
            Name = UnFqdn (EffectiveFQDN (GetChallengeInfo (Digest cenv) domain keyAuth)),
            Content = dquote @ Value (GetChallengeInfo (Digest cenv) domain keyAuth) @ dquote,
            TTL = cf_TTL (cf_config cd)\<rparr> cw2 = (Inl ce, cw3)
      \<longrightarrow> cf_err (cf_Present cenv cd domain token keyAuth cw) = Some (CfCreateRecord ce)
          \<and> cf_prov (cf_Present cenv cd domain token keyAuth cw) = cd
          \<and> recordIDs (cf_prov (cf_Present cenv cd domain token keyAuth cw)) = recordIDs cd)
   \<and> (NewConnector ienv (ibConfig idp) (ibAuth idp) (transportConfig idp) iw
        = (Inr connector, iw1)
      \<and> CreateTXTRecord (NewObjectManager ienv connector (useragent_Get ienv) [])
           (ib_DNSView (ib_config idp))
           (UnFqdn (EffectiveFQDN (GetChallengeInfo (Digest ienv) domain keyAuth)))
           (Value (GetChallengeInfo (Digest ienv) domain keyAuth))
           (word_of_int (ib_TTL (ib_config idp))) True ''lego'' iw1 = (Inl ie, iw2)
      \<longrightarrow> ib_err (ib_Present ienv idp domain token keyAuth iw) = Some (IbCreateRecord domain ie)
          \<and> ib_prov (ib_Present ienv idp domain token keyAuth iw) = idp
          \<and> recordRefs (ib_prov (ib_Present ienv idp domain token keyAuth iw)) = recordRefs idp)"
  using cf_Present_create_fails [of cenv domain keyAuth cw authZone cw1 cd zoneID cw2 ce cw3 token]
    ib_Present_create_fails [of ienv idp iw connector iw1 domain keyAuth ie iw2 token]
  by simp

theorem present_create_failure_witness:
  "FindZoneByFqdn demo_cf_env
       (EffectiveFQDN (GetChallengeInfo (Digest demo_cf_env) ''example.com'' ''ka''))
       [''id-_acme-challenge.example.com'']
     = (Inr ''example.com.'', [''id-_acme-challenge.example.com''])
   \<and> ZoneIDByName (cf_client demo_cf_stored) ''example.com.'' [''id-_acme-challenge.example.com'']
     = (Inr ''zone-1'', [''id-_acme-challenge.example.com''])
   \<and> CreateDNSRecord (cf_client demo_cf_stored) ''zone-1''
         \<lparr>ID = [], Type = ''TXT'',
          Name = UnFqdn (EffectiveFQDN (GetChallengeInfo (Digest demo_cf_env) ''example.com'' ''ka'')),
          Content = dquote @ Value (GetChallengeInfo (Digest demo_cf_env) ''example.com'' ''ka'')
                      @ dquote,
          TTL = cf_TTL (cf_config demo_cf_stored)\<rparr> [''id-_acme-challenge.example.com'']
     = (Inl ''record already exists'', [''id-_acme-challenge.example.com''])
   \<and> cf_err (cf_Present demo_cf_env demo_cf_stored ''example.com'' ''tok2'' ''ka''
         [''id-_acme-challenge.example.com'']) = Some (CfCreateRecord ''record already exists'')
   \<and> recordIDs (cf_prov (cf_Present demo_cf_env demo_cf_stored ''example.com'' ''tok2'' ''ka''
         [''id-_acme-challenge.example.com''])) = recordIDs demo_cf_stored
   \<and> NewConnector demo_ib_env (ibConfig demo_ib_stored) (ibAuth demo_ib_stored)
         (transportConfig demo_ib_stored) [''record:txt/_acme-challenge.example.com'']
     = (Inr demo_connector, [''record:txt/_acme-challenge.example.com''])
   \<and> CreateTXTRecord (NewObjectManager demo_ib_env demo_connector (useragent_Get demo_ib_env) [])
         (ib_DNSView (ib_config demo_ib_stored))
         (UnFqdn (EffectiveFQDN (GetChallengeInfo (Digest demo_ib_env) ''example.com'' ''ka'')))
         (Value (GetChallengeInfo (Digest demo_ib_env) ''example.com'' ''ka''))
         (word_of_int (ib_TTL (ib_config demo_ib_stored))) True ''lego''
         [''record:txt/_acme-challenge.example.com'']
     = (Inl ''record already exists'', [''record:txt/_acme-challenge.example.com''])
   \<and> ib_err (ib_Present demo_ib_env demo_ib_stored ''example.com'' ''tok2'' ''ka''
         [''record:txt/_acme-challenge.example.com''])
     = Some (IbCreateRecord ''example.com'' ''record already exists'')
   \<and> recordRefs (ib_prov (ib_Present demo_ib_env demo_ib_stored ''example.com'' ''tok2'' ''ka''
         [''record:txt/_acme-challenge.example.com''])) = recordRefs demo_ib_stored"
  using present_create_failure [where cenv = demo_cf_env and domain = "''example.com''"
      and keyAuth = "''ka''" and cw = "[''id-_acme-challenge.example.com'']"
      and authZone = "''example.com.''" and ?cw1.0 = "[''id-_acme-challenge.example.com'']"
      and cd = demo_cf_stored and zoneID = "''zone-1''"
      and ?cw2.0 = "[''id-_acme-challenge.example.com'']" and ce = "''record already exists''"
      and ?cw3.0 = "[''id-_acme-challenge.example.com'']" and token = "''tok2''"
      and ienv = demo_ib_env and idp = demo_ib_stored
      and iw = "[''record:txt/_acme-challenge.example.com'']" and connector = demo_connector
      and ?iw1.0 = "[''record:txt/_acme-challenge.example.com'']"
      and ie = "''record already exists''"
      and ?iw2.0 = "[''record:txt/_acme-challenge.example.com'']"]
  by (simp add: demo_cf_stored_def demo_ib_stored_def demo_defs)

subsection \<open>Present followed by CleanUp\<close>

text \<open>
  Claim C3. For every domain, token and key material: if \<open>Present\<close> returns \<open>nil\<close>, it has
  stored under the token the reference that the backend's create call returned; and if a
  \<open>CleanUp\<close> with the same arguments, on the provider that \<open>Present\<close> left and in whatever
  world there is by then, returns \<open>nil\<close> as well, the record-reference store has no entry
  for the token afterwards. This holds for the Cloudflare and for the Infoblox provider.
\<close>

theorem round_trip:
  "(cf_err (cf_Present cenv cd domain token keyAuth cw) = None
      \<and> cf_err (cf_CleanUp cenv (cf_prov (cf_Present cenv cd domain token keyAuth cw))
                  domain token keyAuth cw') = None
      \<longrightarrow> (\<exists>zoneID r w2 response w3.
             CreateDNSRecord (cf_client cd) zoneID r w2 = (Inr response, w3)
             \<and> recordIDs (cf_prov (cf_Present cenv cd domain token keyAuth cw))
                 = (recordIDs cd)(token \<mapsto> ID response))
          \<and> recordIDs (cf_prov (cf_CleanUp cenv
                (cf_prov (cf_Present cenv cd domain token keyAuth cw))
                domain token keyAuth cw')) token = None)
   \<and> (ib_err (ib_Present ienv idp domain token keyAuth iw) = None
      \<and> ib_err (ib_CleanUp ienv (ib_prov (ib_Present ienv idp domain token keyAuth iw))
                  domain token keyAuth iw') = None
      \<longrightarrow> (\<exists>connector view name text ttl w1 created w2.
             CreateTXTRecord (NewObjectManager ienv connector (useragent_Get ienv) [])
               view name text ttl True ''lego'' w1 = (Inr created, w2)
             \<and> recordRefs (ib_prov (ib_Present ienv idp domain token keyAuth iw))
                 = (recordRefs idp)(token \<mapsto> Ref created))
          \<and> recordRefs (ib_prov (ib_CleanUp ienv
                (ib_prov (ib_Present ienv idp domain token keyAuth iw))
                domain token keyAuth iw')) token = None)"
proof (intro conjI impI)
  assume a: "cf_err (cf_Present cenv cd domain token keyAuth cw) = None
    \<and> cf_err (cf_CleanUp cenv (cf_prov (cf_Present cenv cd domain token keyAuth cw))
                  domain token keyAuth cw') = None"
  from a show "\<exists>zoneID r w2 response w3.
      CreateDNSRecord (cf_client cd) zoneID r w2 = (Inr response, w3)
      \<and> recordIDs (cf_prov (cf_Present cenv cd domain token keyAuth cw))
          = (recordIDs cd)(token \<mapsto> ID response)"
    using cf_Present_ok_ref [of cenv cd domain token keyAuth cw] by simp
  from a show "recordIDs (cf_prov (cf_CleanUp cenv
      (cf_prov (cf_Present cenv cd domain token keyAuth cw))
      domain token keyAuth cw')) token = None"
    by (simp add: cf_CleanUp_ok_removes)
next
  assume a: "ib_err (ib_Present ienv idp domain token keyAuth iw) = None
    \<and> ib_err (ib_CleanUp ienv (ib_prov (ib_Present ienv idp domain token keyAuth iw))
                  domain token keyAuth iw') = None"
  from a show "\<exists>connector view name text ttl w1 created w2.
      CreateTXTRecord (NewObjectManager ienv connector (useragent_Get ienv) [])
        view name text ttl True ''lego'' w1 = (Inr created, w2)
      \<and> recordRefs (ib_prov (ib_Present ienv idp domain token keyAuth iw))
          = (recordRefs idp)(token \<mapsto> Ref created)"
    using ib_Present_ok_ref [of ienv idp domain token keyAuth iw] by simp
  from a show "recordRefs (ib_prov (ib_CleanUp ienv
      (ib_prov (ib_Present ienv idp domain token keyAuth iw))
      domain token keyAuth iw')) token = None"
    by (simp add: ib_CleanUp_ok_removes)
qed

theorem round_trip_witness:
  "cf_err (cf_Present demo_cf_env demo_cf_provider ''example.com'' ''tok'' ''ka'' []) = None
   \<and> cf_prov (cf_Present demo_cf_env demo_cf_provider ''example.com'' ''tok'' ''ka'' [])
       = demo_cf_stored
   \<and> recordIDs demo_cf_stored ''tok'' = Some ''id-_acme-challenge.example.com''
   \<and> cf_err (cf_CleanUp demo_cf_env demo_cf_stored ''example.com'' ''tok'' ''ka''
         [''id-_acme-challenge.example.com'']) = None
   \<and> recordIDs (cf_prov (cf_CleanUp demo_cf_env demo_cf_stored ''example.com'' ''tok'' ''ka''
         [''id-_acme-challenge.example.com''])) ''tok'' = None
   \<and> ib_err (ib_Present demo_ib_env demo_ib_provider ''example.com'' ''tok'' ''ka'' []) = None
   \<and> ib_prov (ib_Present demo_ib_env demo_ib_provider ''example.com'' ''tok'' ''ka'' [])
       = demo_ib_stored
   \<and> recordRefs demo_ib_stored ''tok'' = Some ''record:txt/_acme-challenge.example.com''
   \<and> ib_err (ib_CleanUp demo_ib_env demo_ib_stored ''example.com'' ''tok'' ''ka''
         [''record:txt/_acme-challenge.example.com'']) = None
   \<and> recordRefs (ib_prov (ib_CleanUp demo_ib_env demo_ib_stored ''example.com'' ''tok'' ''ka''
         [''record:txt/_acme-challenge.example.com''])) ''tok'' = None"
proof -
  have c: "cf_err (cf_CleanUp demo_cf_env demo_cf_stored ''example.com'' ''tok'' ''ka''
      [''id-_acme-challenge.example.com'']) = None"
    by (simp add: cf_CleanUp_def demo_cf_stored_def demo_defs)
  have i: "ib_err (ib_CleanUp demo_ib_env demo_ib_stored ''example.com'' ''tok'' ''ka''
      [''record:txt/_acme-challenge.example.com'']) = None"
    by (simp add: ib_CleanUp_def ib_deferred_Logout_def demo_ib_stored_def demo_defs)
  show ?thesis
    using round_trip [where cenv = demo_cf_env and cd = demo_cf_provider
        and domain = "''example.com''" and token = "''tok''" and keyAuth = "''ka''"
        and cw = "[]" and cw' = "[''id-_acme-challenge.example.com'']"
        and ienv = demo_ib_env and idp = demo_ib_provider and iw = "[]"
        and iw' = "[''record:txt/_acme-challenge.example.com'']"]
      c i
    by (simp add: demo_cf_present demo_ib_present demo_cf_stored_def demo_ib_stored_def)
qed

subsection \<open>CleanUp when the backend's delete fails\<close>

text \<open>
  Claim C9. In the Cloudflare provider every error of the backend's delete call is
  non-fatal: when the token has a stored record ID, the zone steps succeed and
  \<open>DeleteDNSRecord\<close> returns any error, \<open>CleanUp\<close> logs that error, removes the store entry
  of the token and returns \<open>nil\<close>. In the Infoblox provider, when the token has a stored
  reference, the connector is opened and \<open>DeleteTXTRecord\<close> returns any error, \<open>CleanUp\<close>
  returns that error wrapped, and the provider, the store entry of the token included, is
  left as it was.
\<close>

theorem cleanup_delete_failure:
  "(recordIDs cd token = Some recordID
      \<and> FindZoneByFqdn cenv (EffectiveFQDN (GetChallengeInfo (Digest cenv) domain keyAuth)) cw
          = (Inr authZone, cw1)
      \<and> ZoneIDByName (cf_client cd) authZone cw1 = (Inr zoneID, cw2)
      \<and> DeleteDNSRecord (cf_client cd) zoneID recordID cw2 = (Some ce, cw3)
      \<longrightarrow> cf_err (cf_CleanUp cenv cd domain token keyAuth cw) = None
          \<and> cf_logged (cf_CleanUp cenv cd domain token keyAuth cw) = [LogDeleteFailed ce]
          \<and> cf_prov (cf_CleanUp cenv cd domain token keyAuth cw)
              = cd\<lparr>recordIDs := (recordIDs cd)(token := None)\<rparr>)
   \<and> (recordRefs idp token = Some recordRef
      \<and> NewConnector ienv (ibConfig idp) (ibAuth idp) (transportConfig idp) iw
          = (Inr connector, iw1)
      \<and> DeleteTXTRecord (NewObjectManager ienv connector (useragent_Get ienv) []) recordRef iw1
          = (Inl ie, iw2)
      \<longrightarrow> ib_err (ib_CleanUp ienv idp domain token keyAuth iw) = Some (IbDeleteRecord domain ie)
          \<and> ib_prov (ib_CleanUp ienv idp domain token keyAuth iw) = idp
          \<and> recordRefs (ib_prov (ib_CleanUp ienv idp domain token keyAuth iw)) token
              = Some recordRef)"
  using cf_CleanUp_delete_fails [of cd token recordID cenv domain keyAuth cw authZone cw1
      zoneID cw2 ce cw3]
    ib_CleanUp_delete_fails [of idp token recordRef ienv iw connector iw1 ie iw2 domain keyAuth]
  by simp

theorem cleanup_delete_failure_witness:
  "recordIDs demo_cf_stored ''tok'' = Some ''id-_acme-challenge.example.com''
   \<and> FindZoneByFqdn demo_cf_env
         (EffectiveFQDN (GetChallengeInfo (Digest demo_cf_env) ''example.com'' ''ka'')) []
       = (Inr ''example.com.'', [])
   \<and> ZoneIDByName (cf_client demo_cf_stored) ''example.com.'' [] = (Inr ''zone-1'', [])
   \<and> DeleteDNSRecord (cf_client demo_cf_stored) ''zone-1'' ''id-_acme-challenge.example.com'' []
       = (Some ''record not found'', [])
   \<and> cf_err (cf_CleanUp demo_cf_env demo_cf_stored ''example.com'' ''tok'' ''ka'' []) = None
   \<and> cf_logged (cf_CleanUp demo_cf_env demo_cf_stored ''example.com'' ''tok'' ''ka'' [])
       = [LogDeleteFailed ''record not found'']
   \<and> recordIDs (cf_prov (cf_CleanUp demo_cf_env demo_cf_stored ''example.com'' ''tok'' ''ka'' []))
         ''tok'' = None
   \<and> recordRefs demo_ib_stored ''tok'' = Some ''record:txt/_acme-challenge.example.com''
   \<and> NewConnector demo_ib_env (ibConfig demo_ib_stored) (ibAuth demo_ib_stored)
         (transportConfig demo_ib_stored) [] = (Inr demo_connector, [])
   \<and> DeleteTXTRecord (NewObjectManager demo_ib_env demo_connector (useragent_Get demo_ib_env) [])
         ''record:txt/_acme-challenge.example.com'' [] = (Inl ''record not found'', [])
   \<and> ib_err (ib_CleanUp demo_ib_env demo_ib_stored ''example.com'' ''tok'' ''ka'' [])
       = Some (IbDeleteRecord ''example.com'' ''record not found'')
   \<and> recordRefs (ib_prov (ib_CleanUp demo_ib_env demo_ib_stored ''example.com'' ''tok'' ''ka'' []))
         ''tok'' = Some ''record:txt/_acme-challenge.example.com''"
  using cleanup_delete_failure [where cd = demo_cf_stored and token = "''tok''"
      and recordID = "''id-_acme-challenge.example.com''" and cenv = demo_cf_env
      and domain = "''example.com''" and keyAuth = "''ka''" and cw = "[]"
      and authZone = "''example.com.''" and ?cw1.0 = "[]" and zoneID = "''zone-1''"
      and ?cw2.0 = "[]" and ce = "''record not found''" and ?cw3.0 = "[]"
      and idp = demo_ib_stored and recordRef = "''record:txt/_acme-challenge.example.com''"
      and ienv = demo_ib_env and iw = "[]" and connector = demo_connector and ?iw1.0 = "[]"
      and ie = "''record not found''" and ?iw2.0 = "[]"]
  by (simp add: demo_cf_stored_def demo_ib_stored_def demo_defs)

text \<open>
  Claim C2, as stated, fails on the Infoblox provider. On the small backend: \<open>Present\<close>
  stores a reference for the token; the record is then deleted out-of-band (the world is
  empty again); \<open>CleanUp\<close> gets the backend's record-not-found error from the delete call,
  returns it as its own error and keeps the store entry.
\<close>

theorem cleanup_record_gone_infoblox_counterexample:
  "ib_err (ib_Present demo_ib_env demo_ib_provider ''example.com'' ''tok'' ''ka'' []) = None
   \<and> ib_prov (ib_Present demo_ib_env demo_ib_provider ''example.com'' ''tok'' ''ka'' [])
       = demo_ib_stored
   \<and> recordRefs demo_ib_stored ''tok'' = Some ''record:txt/_acme-challenge.example.com''
   \<and> ib_calls (ib_CleanUp demo_ib_env demo_ib_stored ''example.com'' ''tok'' ''ka'' [])
       = [CallNewConnector (ibConfig demo_ib_stored) (ibAuth demo_ib_stored)
            (transportConfig demo_ib_stored),
          CallDeleteTXTRecord ''record:txt/_acme-challenge.example.com'', CallLogout]
   \<and> ib_err (ib_CleanUp demo_ib_env demo_ib_stored ''example.com'' ''tok'' ''ka'' [])
       = Some (IbDeleteRecord ''example.com'' ''record not found'')
   \<and> recordRefs (ib_prov (ib_CleanUp demo_ib_env demo_ib_stored ''example.com'' ''tok'' ''ka'' []))
         ''tok'' = Some ''record:txt/_acme-challenge.example.com''"
  by (simp add: demo_ib_present)
    (simp add: ib_CleanUp_def ib_deferred_Logout_def demo_ib_stored_def demo_defs)

text \<open>
  Claim C2, amended. In the Cloudflare provider, for every token with a stored record ID:
  if the zone steps succeed and the backend's delete call reports an error (that the
  record no longer exists, or any other), \<open>CleanUp\<close> makes exactly that one delete call for
  the stored ID, logs the error as a warning, removes the store entry of the token, leaves
  the entries of all the other tokens, and returns \<open>nil\<close>.
\<close>

theorem cleanup_record_gone_cloudflare:
  "recordIDs d token = Some recordID
   \<and> FindZoneByFqdn env (EffectiveFQDN (GetChallengeInfo (Digest env) domain keyAuth)) w
       = (Inr authZone, w1)
   \<and> ZoneIDByName (cf_client d) authZone w1 = (Inr zoneID, w2)
   \<and> DeleteDNSRecord (cf_client d) zoneID recordID w2 = (Some e, w3)
   \<longrightarrow> cf_err (cf_CleanUp env d domain token keyAuth w) = None
       \<and> recordIDs (cf_prov (cf_CleanUp env d domain token keyAuth w)) token = None
       \<and> (\<forall>t. t \<noteq> token \<longrightarrow>
            recordIDs (cf_prov (cf_CleanUp env d domain token keyAuth w)) t = recordIDs d t)
       \<and> filter cf_is_delete (cf_calls (cf_CleanUp env d domain token keyAuth w))
           = [CallDeleteDNSRecord zoneID recordID]
       \<and> cf_logged (cf_CleanUp env d domain token keyAuth w) = [LogDeleteFailed e]
       \<and> cf_world (cf_CleanUp env d domain token keyAuth w) = w3"
  using cf_CleanUp_delete_fails [of d token recordID env domain keyAuth w authZone w1
      zoneID w2 e w3]
  by simp

theorem cleanup_record_gone_cloudflare_witness:
  "recordIDs demo_cf_stored ''tok'' = Some ''id-_acme-challenge.example.com''
   \<and> FindZoneByFqdn demo_cf_env
         (EffectiveFQDN (GetChallengeInfo (Digest demo_cf_env) ''example.com'' ''ka'')) []
       = (Inr ''example.com.'', [])
   \<and> ZoneIDByName (cf_client demo_cf_stored) ''example.com.'' [] = (Inr ''zone-1'', [])
   \<and> DeleteDNSRecord (cf_client demo_cf_stored) ''zone-1'' ''id-_acme-challenge.example.com'' []
       = (Some ''record not found'', [])
   \<and> cf_err (cf_CleanUp demo_cf_env demo_cf_stored ''example.com'' ''tok'' ''ka'' []) = None
   \<and> recordIDs (cf_prov (cf_CleanUp demo_cf_env demo_cf_stored ''example.com'' ''tok'' ''ka'' []))
         ''tok'' = None
   \<and> ''other'' \<noteq> ''tok''
   \<and> recordIDs (cf_prov (cf_CleanUp demo_cf_env demo_cf_stored ''example.com'' ''tok'' ''ka'' []))
         ''other'' = recordIDs demo_cf_stored ''other''
   \<and> filter cf_is_delete
         (cf_calls (cf_CleanUp demo_cf_env demo_cf_stored ''example.com'' ''tok'' ''ka'' []))
       = [CallDeleteDNSRecord ''zone-1'' ''id-_acme-challenge.example.com'']"
  using cleanup_record_gone_cloudflare [where d = demo_cf_stored and token = "''tok''"
      and recordID = "''id-_acme-challenge.example.com''" and env = demo_cf_env
      and domain = "''example.com''" and keyAuth = "''ka''" and w = "[]"
      and authZone = "''example.com.''" and ?w1.0 = "[]" and zoneID = "''zone-1''"
      and ?w2.0 = "[]" and e = "''record not found''" and ?w3.0 = "[]"]
  by (simp add: demo_cf_stored_def demo_defs)

subsection \<open>CleanUp for a token that was never presented\<close>

text \<open>
  Claim C1, as stated, fails on both providers: the store lookup is not the first step of
  \<open>CleanUp\<close>. On the small backend, with freshly constructed providers and a token that no
  \<open>Present\<close> ever stored: the Cloudflare \<open>CleanUp\<close> has looked the zone up twice (in the DNS
  and at the backend) before it returns the unknown-record error, and for a domain whose
  zone cannot be found it returns the zone error instead; the Infoblox \<open>CleanUp\<close> has opened
  a session (and closes it) before it returns the unknown-record error.
\<close>

theorem cleanup_unknown_token_counterexample:
  "cf_NewDNSProviderConfig demo_cf_env (Some (demo_cf_config 300)) = Inr demo_cf_provider
   \<and> recordIDs demo_cf_provider ''tok'' = None
   \<and> cf_err (cf_CleanUp demo_cf_env demo_cf_provider ''example.com'' ''tok'' ''ka'' [])
       = Some (CfUnknownRecordID ''_acme-challenge.example.com.'')
   \<and> cf_calls (cf_CleanUp demo_cf_env demo_cf_provider ''example.com'' ''tok'' ''ka'' [])
       = [CallFindZoneByFqdn ''_acme-challenge.example.com.'', CallZoneIDByName ''example.com.'']
   \<and> cf_err (cf_CleanUp demo_cf_env demo_cf_provider ''example.org'' ''tok'' ''ka'' [])
       = Some (CfFindZone ''example.org'' ''could not find the start of authority'')
   \<and> ib_NewDNSProviderConfig (Some demo_ib_config) = Inr demo_ib_provider
   \<and> recordRefs demo_ib_provider ''tok'' = None
   \<and> ib_err (ib_CleanUp demo_ib_env demo_ib_provider ''example.com'' ''tok'' ''ka'' [])
       = Some (IbUnknownRecordID ''_acme-challenge.example.com.'' ''tok'')
   \<and> ib_calls (ib_CleanUp demo_ib_env demo_ib_provider ''example.com'' ''tok'' ''ka'' [])
       = [CallNewConnector (ibConfig demo_ib_provider) (ibAuth demo_ib_provider)
            (transportConfig demo_ib_provider), CallLogout]"
  by (simp add: demo_cf_construct demo_ib_construct)
    (simp add: cf_CleanUp_def ib_CleanUp_def ib_deferred_Logout_def demo_defs)

text \<open>
  Claim C1, amended. Take a provider that was constructed, any history of \<open>Present\<close> and
  \<open>CleanUp\<close> calls and changes of the world after that, and a token for which the history
  has no \<open>Present\<close> that returned \<open>nil\<close>. Then \<open>CleanUp\<close> for that token fails, leaves the
  provider and its store as they are, and never calls the backend's delete operation. It
  runs the steps that precede the store lookup and returns the unknown-record error
  exactly when they succeed: in the Cloudflare provider \<open>FindZoneByFqdn\<close> and then
  \<open>ZoneIDByName\<close>, whose errors are returned when they fail; in the Infoblox provider
  \<open>NewConnector\<close>, whose error is returned when it fails, and the \<open>Logout\<close> of the session
  it opened.
\<close>

theorem cleanup_unknown_token:
  "(cf_NewDNSProviderConfig cenv ccfg = Inr cd0
      \<and> cf_run cenv chist cd0 cw0 = (cd, cw, crs)
      \<and> \<not> list_ex (presented token) crs
      \<longrightarrow> cf_err (cf_CleanUp cenv cd domain token keyAuth cw) =
            (case FindZoneByFqdn cenv
                    (EffectiveFQDN (GetChallengeInfo (Digest cenv) domain keyAuth)) cw of
               (Inl e, w1) \<Rightarrow> Some (CfFindZone domain e)
             | (Inr authZone, w1) \<Rightarrow>
                 (case ZoneIDByName (cf_client cd) authZone w1 of
                    (Inl e, w2) \<Rightarrow> Some (CfZoneID authZone e)
                  | (Inr zoneID, w2) \<Rightarrow>
                      Some (CfUnknownRecordID
                              (EffectiveFQDN (GetChallengeInfo (Digest cenv) domain keyAuth)))))
          \<and> cf_calls (cf_CleanUp cenv cd domain token keyAuth cw) =
            (case FindZoneByFqdn cenv
                    (EffectiveFQDN (GetChallengeInfo (Digest cenv) domain keyAuth)) cw of
               (Inl e, w1) \<Rightarrow>
                 [CallFindZoneByFqdn (EffectiveFQDN (GetChallengeInfo (Digest cenv) domain keyAuth))]
             | (Inr authZone, w1) \<Rightarrow>
                 [CallFindZoneByFqdn (EffectiveFQDN (GetChallengeInfo (Digest cenv) domain keyAuth)),
                  CallZoneIDByName authZone])
          \<and> cf_err (cf_CleanUp cenv cd domain token keyAuth cw) \<noteq> None
          \<and> filter cf_is_delete (cf_calls (cf_CleanUp cenv cd domain token keyAuth cw)) = []
          \<and> cf_prov (cf_CleanUp cenv cd domain token keyAuth cw) = cd)
   \<and> (ib_NewDNSProviderConfig icfg = Inr id0
      \<and> ib_run ienv ihist id0 iw0 = (idp, iw, irs)
      \<and> \<not> list_ex (presented token) irs
      \<longrightarrow> ib_err (ib_CleanUp ienv idp domain token keyAuth iw) =
            (case NewConnector ienv (ibConfig idp) (ibAuth idp) (transportConfig idp) iw of
               (Inl e, w1) \<Rightarrow> Some (IbConnector e)
             | (Inr connector, w1) \<Rightarrow>
                 Some (IbUnknownRecordID
                         (EffectiveFQDN (GetChallengeInfo (Digest ienv) domain keyAuth)) token))
          \<and> ib_calls (ib_CleanUp ienv idp domain token keyAuth iw) =
            (case NewConnector ienv (ibConfig idp) (ibAuth idp) (transportConfig idp) iw of
               (Inl e, w1) \<Rightarrow> [CallNewConnector (ibConfig idp) (ibAuth idp) (transportConfig idp)]
             | (Inr connector, w1) \<Rightarrow>
                 [CallNewConnector (ibConfig idp) (ibAuth idp) (transportConfig idp), CallLogout])
          \<and> ib_err (ib_CleanUp ienv idp domain token keyAuth iw) \<noteq> None
          \<and> filter ib_is_delete (ib_calls (ib_CleanUp ienv idp domain token keyAuth iw)) = []
          \<and> ib_prov (ib_CleanUp ienv idp domain token keyAuth iw) = idp)"
proof (rule conjI)
  show "cf_NewDNSProviderConfig cenv ccfg = Inr cd0
      \<and> cf_run cenv chist cd0 cw0 = (cd, cw, crs)
      \<and> \<not> list_ex (presented token) crs
      \<longrightarrow> cf_err (cf_CleanUp cenv cd domain token keyAuth cw) =
            (case FindZoneByFqdn cenv
                    (EffectiveFQDN (GetChallengeInfo (Digest cenv) domain keyAuth)) cw of
               (Inl e, w1) \<Rightarrow> Some (CfFindZone domain e)
             | (Inr authZone, w1) \<Rightarrow>
                 (case ZoneIDByName (cf_client cd) authZone w1 of
                    (Inl e, w2) \<Rightarrow> Some (CfZoneID authZone e)
                  | (Inr zoneID, w2) \<Rightarrow>
                      Some (CfUnknownRecordID
                              (EffectiveFQDN (GetChallengeInfo (Digest cenv) domain keyAuth)))))
          \<and> cf_calls (cf_CleanUp cenv cd domain token keyAuth cw) =
            (case FindZoneByFqdn cenv
                    (EffectiveFQDN (GetChallengeInfo (Digest cenv) domain keyAuth)) cw of
               (Inl e, w1) \<Rightarrow>
                 [CallFindZoneByFqdn (EffectiveFQDN (GetChallengeInfo (Digest cenv) domain keyAuth))]
             | (Inr authZone, w1) \<Rightarrow>
                 [CallFindZoneByFqdn (EffectiveFQDN (GetChallengeInfo (Digest cenv) domain keyAuth)),
                  CallZoneIDByName authZone])
          \<and> cf_err (cf_CleanUp cenv cd domain token keyAuth cw) \<noteq> None
          \<and> filter cf_is_delete (cf_calls (cf_CleanUp cenv cd domain token keyAuth cw)) = []
          \<and> cf_prov (cf_CleanUp cenv cd domain token keyAuth cw) = cd"
  proof (intro impI)
    assume a: "cf_NewDNSProviderConfig cenv ccfg = Inr cd0
      \<and> cf_run cenv chist cd0 cw0 = (cd, cw, crs)
      \<and> \<not> list_ex (presented token) crs"
    then have absent: "recordIDs cd token = None"
      using cf_never_presented [of cenv ccfg cd0 chist cw0 cd cw crs token] by simp
    show "cf_err (cf_CleanUp cenv cd domain token keyAuth cw) =
            (case FindZoneByFqdn cenv
                    (EffectiveFQDN (GetChallengeInfo (Digest cenv) domain keyAuth)) cw of
               (Inl e, w1) \<Rightarrow> Some (CfFindZone domain e)
             | (Inr authZone, w1) \<Rightarrow>
                 (case ZoneIDByName (cf_client cd) authZone w1 of
                    (Inl e, w2) \<Rightarrow> Some (CfZoneID authZone e)
                  | (Inr zoneID, w2) \<Rightarrow>
                      Some (CfUnknownRecordID
                              (EffectiveFQDN (GetChallengeInfo (Digest cenv) domain keyAuth)))))
          \<and> cf_calls (cf_CleanUp cenv cd domain token keyAuth cw) =
            (case FindZoneByFqdn cenv
                    (EffectiveFQDN (GetChallengeInfo (Digest cenv) domain keyAuth)) cw of
               (Inl e, w1) \<Rightarrow>
                 [CallFindZoneByFqdn (EffectiveFQDN (GetChallengeInfo (Digest cenv) domain keyAuth))]
             | (Inr authZone, w1) \<Rightarrow>
                 [CallFindZoneByFqdn (EffectiveFQDN (GetChallengeInfo (Digest cenv) domain keyAuth)),
                  CallZoneIDByName authZone])
          \<and> cf_err (cf_CleanUp cenv cd domain token keyAuth cw) \<noteq> None
          \<and> filter cf_is_delete (cf_calls (cf_CleanUp cenv cd domain token keyAuth cw)) = []
          \<and> cf_prov (cf_CleanUp cenv cd domain token keyAuth cw) = cd"
      by (simp add: cf_CleanUp_unknown [OF absent] split: prod.splits sum.splits)
  qed
next
  show "ib_NewDNSProviderConfig icfg = Inr id0
      \<and> ib_run ienv ihist id0 iw0 = (idp, iw, irs)
      \<and> \<not> list_ex (presented token) irs
      \<longrightarrow> ib_err (ib_CleanUp ienv idp domain token keyAuth iw) =
            (case NewConnector ienv (ibConfig idp) (ibAuth idp) (transportConfig idp) iw of
               (Inl e, w1) \<Rightarrow> Some (IbConnector e)
             | (Inr connector, w1) \<Rightarrow>
                 Some (IbUnknownRecordID
                         (EffectiveFQDN (GetChallengeInfo (Digest ienv) domain keyAuth)) token))
          \<and> ib_calls (ib_CleanUp ienv idp domain token keyAuth iw) =
            (case NewConnector ienv (ibConfig idp) (ibAuth idp) (transportConfig idp) iw of
               (Inl e, w1) \<Rightarrow> [CallNewConnector (ibConfig idp) (ibAuth idp) (transportConfig idp)]
             | (Inr connector, w1) \<Rightarrow>
                 [CallNewConnector (ibConfig idp) (ibAuth idp) (transportConfig idp), CallLogout])
          \<and> ib_err (ib_CleanUp ienv idp domain token keyAuth iw) \<noteq> None
          \<and> filter ib_is_delete (ib_calls (ib_CleanUp ienv idp domain token keyAuth iw)) = []
          \<and> ib_prov (ib_CleanUp ienv idp domain token keyAuth iw) = idp"
  proof (intro impI)
    assume a: "ib_NewDNSProviderConfig icfg = Inr id0
      \<and> ib_run ienv ihist id0 iw0 = (idp, iw, irs)
      \<and> \<not> list_ex (presented token) irs"
    then have absent: "recordRefs idp token = None"
      using ib_never_presented [of icfg id0 ienv ihist iw0 idp iw irs token] by simp
    show "ib_err (ib_CleanUp ienv idp domain token keyAuth iw) =
            (case NewConnector ienv (ibConfig idp) (ibAuth idp) (transportConfig idp) iw of
               (Inl e, w1) \<Rightarrow> Some (IbConnector e)
             | (Inr connector, w1) \<Rightarrow>
                 Some (IbUnknownRecordID
                         (EffectiveFQDN (GetChallengeInfo (Digest ienv) domain keyAuth)) token))
          \<and> ib_calls (ib_CleanUp ienv idp domain token keyAuth iw) =
            (case NewConnector ienv (ibConfig idp) (ibAuth idp) (transportConfig idp) iw of
               (Inl e, w1) \<Rightarrow> [CallNewConnector (ibConfig idp) (ibAuth idp) (transportConfig idp)]
             | (Inr connector, w1) \<Rightarrow>
                 [CallNewConnector (ibConfig idp) (ibAuth idp) (transportConfig idp), CallLogout])
          \<and> ib_err (ib_CleanUp ienv idp domain token keyAuth iw) \<noteq> None
          \<and> filter ib_is_delete (ib_calls (ib_CleanUp ienv idp domain token keyAuth iw)) = []
          \<and> ib_prov (ib_CleanUp ienv idp domain token keyAuth iw) = idp"
      by (simp add: ib_CleanUp_unknown [OF absent] split: prod.splits sum.splits)
  qed
qed

theorem cleanup_unknown_token_witness:
  "cf_NewDNSProviderConfig demo_cf_env (Some (demo_cf_config 300)) = Inr demo_cf_provider
   \<and> cf_run demo_cf_env demo_history demo_cf_provider [] =
       (demo_cf_stored, [''id-_acme-challenge.example.com''],
        [(OpPresent ''example.com'' ''tok'' ''ka'', None),
         (OpCleanUp ''example.com'' ''other'' ''ka'',
            Some (CfUnknownRecordID ''_acme-challenge.example.com.''))])
   \<and> \<not> list_ex (presented ''other'')
         [(OpPresent ''example.com'' ''tok'' ''ka'', None :: cf_error option),
          (OpCleanUp ''example.com'' ''other'' ''ka'',
             Some (CfUnknownRecordID ''_acme-challenge.example.com.''))]
   \<and> cf_err (cf_CleanUp demo_cf_env demo_cf_stored ''example.com'' ''other'' ''ka''
         [''id-_acme-challenge.example.com''])
       = Some (CfUnknownRecordID ''_acme-challenge.example.com.'')
   \<and> cf_prov (cf_CleanUp demo_cf_env demo_cf_stored ''example.com'' ''other'' ''ka''
         [''id-_acme-challenge.example.com'']) = demo_cf_stored
   \<and> ib_NewDNSProviderConfig (Some demo_ib_config) = Inr demo_ib_provider
   \<and> ib_run demo_ib_env demo_history demo_ib_provider [] =
       (demo_ib_stored, [''record:txt/_acme-challenge.example.com''],
        [(OpPresent ''example.com'' ''tok'' ''ka'', None),
         (OpCleanUp ''example.com'' ''other'' ''ka'',
            Some (IbUnknownRecordID ''_acme-challenge.example.com.'' ''other''))])
   \<and> \<not> list_ex (presented ''other'')
         [(OpPresent ''example.com'' ''tok'' ''ka'', None :: ib_error option),
          (OpCleanUp ''example.com'' ''other'' ''ka'',
             Some (IbUnknownRecordID ''_acme-challenge.example.com.'' ''other''))]
   \<and> ib_err (ib_CleanUp demo_ib_env demo_ib_stored ''example.com'' ''other'' ''ka''
         [''record:txt/_acme-challenge.example.com''])
       = Some (IbUnknownRecordID ''_acme-challenge.example.com.'' ''other'')
   \<and> ib_prov (ib_CleanUp demo_ib_env demo_ib_stored ''example.com'' ''other'' ''ka''
         [''record:txt/_acme-challenge.example.com'']) = demo_ib_stored"
proof -
  have c: "\<not> list_ex (presented ''other'')
         [(OpPresent ''example.com'' ''tok'' ''ka'' :: demo_world op, None :: cf_error option),
          (OpCleanUp ''example.com'' ''other'' ''ka'',
             Some (CfUnknownRecordID ''_acme-challenge.example.com.''))]"
    by simp
  have i: "\<not> list_ex (presented ''other'')
         [(OpPresent ''example.com'' ''tok'' ''ka'' :: demo_world op, None :: ib_error option),
          (OpCleanUp ''example.com'' ''other'' ''ka'',
             Some (IbUnknownRecordID ''_acme-challenge.example.com.'' ''other''))]"
    by simp
  have fz: "FindZoneByFqdn demo_cf_env ''_acme-challenge.example.com.''
      [''id-_acme-challenge.example.com''] = (Inr ''example.com.'', [''id-_acme-challenge.example.com''])"
    by (simp add: demo_cf_env_def)
  have zi: "ZoneIDByName (cf_client demo_cf_stored) ''example.com.''
      [''id-_acme-challenge.example.com''] = (Inr ''zone-1'', [''id-_acme-challenge.example.com''])"
    by (simp add: demo_cf_stored_def demo_cf_provider_def demo_client_def)
  have nc: "NewConnector demo_ib_env (ibConfig demo_ib_stored) (ibAuth demo_ib_stored)
      (transportConfig demo_ib_stored) [''record:txt/_acme-challenge.example.com'']
      = (Inr demo_connector, [''record:txt/_acme-challenge.example.com''])"
    by (simp add: demo_ib_stored_def demo_ib_provider_def demo_ib_env_def)
  show ?thesis
    using cleanup_unknown_token [where cenv = demo_cf_env and ccfg = "Some (demo_cf_config 300)"
        and ?cd0.0 = demo_cf_provider and chist = demo_history and ?cw0.0 = "[]"
        and cd = demo_cf_stored and cw = "[''id-_acme-challenge.example.com'']"
        and crs = "[(OpPresent ''example.com'' ''tok'' ''ka'', None),
                    (OpCleanUp ''example.com'' ''other'' ''ka'',
                       Some (CfUnknownRecordID ''_acme-challenge.example.com.''))]"
        and token = "''other''" and domain = "''example.com''" and keyAuth = "''ka''"
        and icfg = "Some demo_ib_config" and ?id0.0 = demo_ib_provider and ienv = demo_ib_env
        and ihist = demo_history and ?iw0.0 = "[]" and idp = demo_ib_stored
        and iw = "[''record:txt/_acme-challenge.example.com'']"
        and irs = "[(OpPresent ''example.com'' ''tok'' ''ka'', None),
                    (OpCleanUp ''example.com'' ''other'' ''ka'',
                       Some (IbUnknownRecordID ''_acme-challenge.example.com.'' ''other''))]"]
      demo_cf_construct demo_ib_construct demo_cf_run demo_ib_run c i
    by (simp add: demo_info fz zi nc)
qed

subsection \<open>The record name handed to the backend\<close>



end
